theory Spec2Isabelle
  imports Complex_Main "HOL-Library.AList"
begin

section \<open>JavaScript values\<close>

text \<open>
  The worker (\<^verbatim>\<open>src/worker.js\<close>) receives parsed JSON from the chat platform and from the
  two data providers. A parsed JSON value is a \<open>json\<close>; the value \<^verbatim>\<open>undefined\<close>, which
  a property read yields for a missing field, is \<open>None\<close> of \<open>jsval\<close>. An object lists its
  fields, each name once (a field is looked up with \<open>map_of\<close>).

  Strings are byte sequences (UTF-8): every character the program inspects (the command
  words, the space, the reserved markup characters) is ASCII, and the emoji of the message
  texts are written as their UTF-8 bytes. Numbers carry the value of the parsed double; a
  literal too large for a double parses to an infinity.
\<close>

datatype jsnum = Finite rat | PosInfinity | NegInfinity

datatype json =
    JNull
  | JBool bool
  | JNum jsnum
  | JStr string
  | JArr "json list"
  | JObj "(string \<times> json) list"

type_synonym jsval = "json option"

datatype error =
    TypeError
  | NetworkError
  | SyntaxError
  | ApiError nat
  | TelegramApiError nat json

definition bindE :: "error + 'a \<Rightarrow> ('a \<Rightarrow> error + 'b) \<Rightarrow> error + 'b" where
  "bindE m f = (case m of Inl e \<Rightarrow> Inl e | Inr x \<Rightarrow> f x)"

text \<open>Truthiness, as \<^verbatim>\<open>if (v)\<close>, \<^verbatim>\<open>!v\<close> and \<^verbatim>\<open>v || d\<close> test it.\<close>

fun truthy :: "jsval \<Rightarrow> bool" where
  "truthy None = False"
| "truthy (Some JNull) = False"
| "truthy (Some (JBool b)) = b"
| "truthy (Some (JNum (Finite q))) = (q \<noteq> 0)"
| "truthy (Some (JNum PosInfinity)) = True"
| "truthy (Some (JNum NegInfinity)) = True"
| "truthy (Some (JStr s)) = (s \<noteq> [])"
| "truthy (Some (JArr xs)) = True"
| "truthy (Some (JObj kvs)) = True"

text \<open>\<^verbatim>\<open>v || d\<close>\<close>

definition or_else :: "jsval \<Rightarrow> jsval \<Rightarrow> jsval" where
  "or_else v d = (if truthy v then v else d)"

text \<open>
  The property read \<^verbatim>\<open>v.k\<close>: a TypeError on \<^verbatim>\<open>null\<close> and \<^verbatim>\<open>undefined\<close>, the field of
  an object (\<^verbatim>\<open>undefined\<close> when it has none), the \<^verbatim>\<open>length\<close> of an array or a string,
  and \<^verbatim>\<open>undefined\<close> otherwise. The program reads only the names \<^verbatim>\<open>message\<close>, \<^verbatim>\<open>text\<close>,
  \<^verbatim>\<open>chat\<close>, \<^verbatim>\<open>id\<close>, \<^verbatim>\<open>coins\<close>, \<^verbatim>\<open>length\<close>, \<^verbatim>\<open>data\<close>, \<^verbatim>\<open>tokens\<close>, \<^verbatim>\<open>description\<close> and the
  fields of a coin, none of which an object inherits from its prototype. (The length of a
  string counts its bytes here; the program only compares a length with 0.)
\<close>

fun get_prop :: "jsval \<Rightarrow> string \<Rightarrow> error + jsval" where
  "get_prop None k = Inl TypeError"
| "get_prop (Some JNull) k = Inl TypeError"
| "get_prop (Some (JObj kvs)) k = Inr (map_of kvs k)"
| "get_prop (Some (JArr xs)) k =
     Inr (if k = ''length'' then Some (JNum (Finite (of_nat (length xs)))) else None)"
| "get_prop (Some (JStr s)) k =
     Inr (if k = ''length'' then Some (JNum (Finite (of_nat (length s)))) else None)"
| "get_prop (Some (JBool b)) k = Inr None"
| "get_prop (Some (JNum n)) k = Inr None"

text \<open>The element read \<^verbatim>\<open>v[0]\<close>.\<close>

fun get_first :: "jsval \<Rightarrow> error + jsval" where
  "get_first None = Inl TypeError"
| "get_first (Some JNull) = Inl TypeError"
| "get_first (Some (JArr xs)) = Inr (case xs of [] \<Rightarrow> None | x # _ \<Rightarrow> Some x)"
| "get_first (Some (JStr s)) = Inr (case s of [] \<Rightarrow> None | c # _ \<Rightarrow> Some (JStr [c]))"
| "get_first (Some (JObj kvs)) = Inr (map_of kvs ''0'')"
| "get_first (Some (JBool b)) = Inr None"
| "get_first (Some (JNum n)) = Inr None"

text \<open>
  What the model takes from the JavaScript runtime as parameters: the conversions of
  numbers, arrays and objects to text (locale- and floating-point-dependent), the Unicode
  upper-casing of a string, the Unicode lower-casing of a string that has a character
  outside ASCII, percent-encoding, and the four message texts of provider A's commands,
  each built from the parsed payload by such conversions (an exception raised while
  building one is the \<open>Inl\<close> result).
\<close>

record prims =
  num_toLocaleString :: "jsnum \<Rightarrow> string"
  num_toFixed :: "nat \<Rightarrow> jsnum \<Rightarrow> string"
  num_toString :: "jsnum \<Rightarrow> string"
  obj_toString :: "json \<Rightarrow> error + string"
  obj_toLocaleString :: "json \<Rightarrow> error + string"
  str_toUpperCase :: "string \<Rightarrow> string"
  str_toLowerCase :: "string \<Rightarrow> string"
  encodeURIComponent :: "string \<Rightarrow> string"
  globalMessage :: "json \<Rightarrow> error + string"
  trendingMessage :: "json \<Rightarrow> error + string"
  top10Message :: "json \<Rightarrow> error + string"
  priceMessage :: "json \<Rightarrow> error + string"

text \<open>\<^verbatim>\<open>v.toString()\<close> on a value that is neither \<^verbatim>\<open>null\<close> nor \<^verbatim>\<open>undefined\<close>.\<close>

fun js_toString :: "prims \<Rightarrow> json \<Rightarrow> error + string" where
  "js_toString p JNull = Inl TypeError"
| "js_toString p (JBool b) = Inr (if b then ''true'' else ''false'')"
| "js_toString p (JNum n) = Inr (num_toString p n)"
| "js_toString p (JStr s) = Inr s"
| "js_toString p (JArr xs) = obj_toString p (JArr xs)"
| "js_toString p (JObj kvs) = obj_toString p (JObj kvs)"

text \<open>\<^verbatim>\<open>v.toLocaleString()\<close> on a truthy value.\<close>

fun js_toLocaleString :: "prims \<Rightarrow> jsval \<Rightarrow> error + string" where
  "js_toLocaleString p None = Inl TypeError"
| "js_toLocaleString p (Some JNull) = Inl TypeError"
| "js_toLocaleString p (Some (JBool b)) = Inr (if b then ''true'' else ''false'')"
| "js_toLocaleString p (Some (JNum n)) = Inr (num_toLocaleString p n)"
| "js_toLocaleString p (Some (JStr s)) = Inr s"
| "js_toLocaleString p (Some (JArr xs)) = obj_toLocaleString p (JArr xs)"
| "js_toLocaleString p (Some (JObj kvs)) = obj_toLocaleString p (JObj kvs)"

section \<open>The markup escaper\<close>

abbreviation backslash :: char where
  "backslash \<equiv> CHR 0x5C"

abbreviation newline :: char where
  "newline \<equiv> CHR 0x0A"

text \<open>The character class of the regular expression \<^verbatim>\<open>/([_*[\]()~`>#+\-=|{}.!])/g\<close>.\<close>

definition reserved_class :: "char list" where
  "reserved_class =
     [CHR ''_'', CHR ''*'', CHR ''['', CHR '']'', CHR ''('', CHR '')'', CHR ''~'', CHR 0x60,
      CHR ''>'', CHR ''#'', CHR ''+'', CHR ''-'', CHR ''='', CHR ''|'', CHR ''{'', CHR ''}'',
      CHR ''.'', CHR ''!'']"

text \<open>
  \<^verbatim>\<open>s.replace(/([...])/g, '\\$1')\<close>: the scan goes left to right; a character of the class
  is a match, replaced by a backslash and the match itself; any other character is copied.
\<close>

fun replace_reserved :: "string \<Rightarrow> string" where
  "replace_reserved [] = []"
| "replace_reserved (c # cs) =
     (if c \<in> set reserved_class then backslash # c # replace_reserved cs
      else c # replace_reserved cs)"

definition escapeMarkdown :: "prims \<Rightarrow> jsval \<Rightarrow> error + string" where
  "escapeMarkdown p text =
     (case text of
        None \<Rightarrow> Inr []
      | Some JNull \<Rightarrow> Inr []
      | Some v \<Rightarrow> bindE (js_toString p v) (\<lambda>s. Inr (replace_reserved s)))"

text \<open>
  The escaper as the specification words it: each character of the reserved set
  \<^verbatim>\<open>_ * [ ] ( ) ~ ` > # + - = | { } . !\<close> is prefixed with a backslash, every other
  character is left as it is.
\<close>

definition spec_reserved :: "char set" where
  "spec_reserved =
     {CHR ''_'', CHR ''*'', CHR ''['', CHR '']'', CHR ''('', CHR '')'', CHR ''~'', CHR 0x60,
      CHR ''>'', CHR ''#'', CHR ''+'', CHR ''-'', CHR ''='', CHR ''|'', CHR ''{'', CHR ''}'',
      CHR ''.'', CHR ''!''}"

definition spec_escape :: "string \<Rightarrow> string" where
  "spec_escape s = concat (map (\<lambda>c. if c \<in> spec_reserved then [backslash, c] else [c]) s)"

section \<open>Text\<close>

abbreviation bs :: string where
  "bs \<equiv> [CHR 0x5C]"

abbreviation nl :: string where
  "nl \<equiv> [CHR 0x0A]"

text \<open>The emoji of the message texts, as UTF-8.\<close>

abbreviation rocket :: string where
  "rocket \<equiv> [CHR 0xF0, CHR 0x9F, CHR 0x9A, CHR 0x80]"

abbreviation cross_mark :: string where
  "cross_mark \<equiv> [CHR 0xE2, CHR 0x9D, CHR 0x8C]"

abbreviation arrows :: string where
  "arrows \<equiv> [CHR 0xF0, CHR 0x9F, CHR 0x94, CHR 0x84]"

abbreviation new_button :: string where
  "new_button \<equiv> [CHR 0xF0, CHR 0x9F, CHR 0x86, CHR 0x95]"

abbreviation chequered_flag :: string where
  "chequered_flag \<equiv> [CHR 0xF0, CHR 0x9F, CHR 0x8F, CHR 0x81]"

abbreviation check_mark :: string where
  "check_mark \<equiv> [CHR 0xE2, CHR 0x9C, CHR 0x85]"

abbreviation mailbox :: string where
  "mailbox \<equiv> [CHR 0xF0, CHR 0x9F, CHR 0x93, CHR 0xAD]"

abbreviation bar_chart :: string where
  "bar_chart \<equiv> [CHR 0xF0, CHR 0x9F, CHR 0x93, CHR 0x8A]"

abbreviation green_circle :: string where
  "green_circle \<equiv> [CHR 0xF0, CHR 0x9F, CHR 0x9F, CHR 0xA2]"

abbreviation red_circle :: string where
  "red_circle \<equiv> [CHR 0xF0, CHR 0x9F, CHR 0x94, CHR 0xB4]"

abbreviation gem :: string where
  "gem \<equiv> [CHR 0xF0, CHR 0x9F, CHR 0x92, CHR 0x8E]"

abbreviation money_bag :: string where
  "money_bag \<equiv> [CHR 0xF0, CHR 0x9F, CHR 0x92, CHR 0xB0]"

abbreviation chart_up :: string where
  "chart_up \<equiv> [CHR 0xF0, CHR 0x9F, CHR 0x93, CHR 0x88]"

abbreviation people :: string where
  "people \<equiv> [CHR 0xF0, CHR 0x9F, CHR 0x91, CHR 0xA5]"

abbreviation alarm_clock :: string where
  "alarm_clock \<equiv> [CHR 0xE2, CHR 0x8F, CHR 0xB0]"

text \<open>
  \<^verbatim>\<open>s.toLowerCase()\<close>. On a string of ASCII characters only, the letters A to Z are
  lowered and every other character is kept. On a string with a character outside ASCII
  the result is the runtime's: Unicode lower-casing has its own tables and depends on the
  neighbouring characters.
\<close>

definition lower_char :: "char \<Rightarrow> char" where
  "lower_char c =
     (let n = (of_char c :: nat) in if 65 \<le> n \<and> n \<le> 90 then char_of (n + 32) else c)"

definition is_ascii :: "string \<Rightarrow> bool" where
  "is_ascii s = list_all (\<lambda>c. (of_char c :: nat) < 128) s"

definition js_lower :: "prims \<Rightarrow> string \<Rightarrow> string" where
  "js_lower p s = (if is_ascii s then map lower_char s else str_toLowerCase p s)"

definition toLowerCase :: "prims \<Rightarrow> jsval \<Rightarrow> error + string" where
  "toLowerCase p v = (case v of Some (JStr s) \<Rightarrow> Inr (js_lower p s) | _ \<Rightarrow> Inl TypeError)"

text \<open>\<^verbatim>\<open>v.toUpperCase()\<close>: a method of strings only.\<close>

definition toUpperCase :: "prims \<Rightarrow> jsval \<Rightarrow> error + string" where
  "toUpperCase p v = (case v of Some (JStr s) \<Rightarrow> Inr (str_toUpperCase p s) | _ \<Rightarrow> Inl TypeError)"

text \<open>\<^verbatim>\<open>s.split(sep)\<close> for a one-character separator.\<close>

fun split_on :: "char \<Rightarrow> string \<Rightarrow> string list" where
  "split_on sep [] = [[]]"
| "split_on sep (c # cs) =
     (if c = sep then [] # split_on sep cs
      else (case split_on sep cs of [] \<Rightarrow> [[c]] | w # ws \<Rightarrow> (c # w) # ws))"

text \<open>\<^verbatim>\<open>xs[i]\<close> on an array of strings: \<^verbatim>\<open>undefined\<close> out of range.\<close>

definition element :: "string list \<Rightarrow> nat \<Rightarrow> jsval" where
  "element xs i = (if i < length xs then Some (JStr (xs ! i)) else None)"

text \<open>\<^verbatim>\<open>s.startsWith(t)\<close>\<close>

definition startsWith :: "string \<Rightarrow> string \<Rightarrow> bool" where
  "startsWith s t = (take (length t) s = t)"

text \<open>The conversion of a value to text inside a template literal or a string argument.\<close>

definition js_String :: "prims \<Rightarrow> jsval \<Rightarrow> error + string" where
  "js_String p v =
     (case v of None \<Rightarrow> Inr ''undefined'' | Some JNull \<Rightarrow> Inr ''null'' | Some x \<Rightarrow> js_toString p x)"

text \<open>A list index inside a template literal: its decimal digits.\<close>

fun decimal :: "nat \<Rightarrow> string" where
  "decimal n =
     (if n < 10 then [char_of (48 + n)] else decimal (n div 10) @ [char_of (48 + n mod 10)])"

section \<open>The outside world\<close>

text \<open>
  The outcome of an HTTP request: the transport fails (\<^verbatim>\<open>fetch\<close> rejects), or a response
  arrives with a status and a body, which is JSON or not (\<^verbatim>\<open>response.json()\<close> rejects on
  \<open>None\<close>). A world fixes the outcome of every GET by its URL and of every send by its
  position among the sends of one dispatch, its URL, chat and text.
\<close>

datatype http_result = NetworkFailure | Response nat "json option"

definition response_ok :: "nat \<Rightarrow> bool" where
  "response_ok status = (200 \<le> status \<and> status \<le> 299)"

record world =
  http_get :: "string \<Rightarrow> http_result"
  telegram_post :: "nat \<Rightarrow> string \<Rightarrow> jsval \<Rightarrow> string \<Rightarrow> http_result"

record env =
  TELEGRAM_BOT_TOKEN :: "string option"

definition token_text :: "env \<Rightarrow> string" where
  "token_text e = (case TELEGRAM_BOT_TOKEN e of None \<Rightarrow> ''undefined'' | Some t \<Rightarrow> t)"

definition WEBHOOK_ENDPOINT :: string where
  "WEBHOOK_ENDPOINT = ''/webhook''"

definition COINGECKO_API :: string where
  "COINGECKO_API = ''https://api.coingecko.com/api/v3''"

definition AXIOM_API :: string where
  "AXIOM_API = ''https://api.axiom.trade/v1''"

text \<open>
  One call of the chat platform's send API, as \<^verbatim>\<open>sendMessage\<close> made it: the chat, the text
  and what the call came to. The sends of a dispatch are collected in order; console output
  is not part of the model.
\<close>

datatype send = Send jsval string "error + json"

type_synonym 'a io = "send list \<Rightarrow> (error + 'a) \<times> send list"

definition lift :: "error + 'a \<Rightarrow> 'a io" where
  "lift r sends = (r, sends)"

definition bind_io :: "'a io \<Rightarrow> ('a \<Rightarrow> 'b io) \<Rightarrow> 'b io" where
  "bind_io m f sends =
     (case m sends of (Inl e, sends') \<Rightarrow> (Inl e, sends') | (Inr x, sends') \<Rightarrow> f x sends')"

definition try_catch :: "'a io \<Rightarrow> (error \<Rightarrow> 'a io) \<Rightarrow> 'a io" where
  "try_catch body handler sends =
     (case body sends of
        (Inl e, sends') \<Rightarrow> handler e sends'
      | (Inr x, sends') \<Rightarrow> (Inr x, sends'))"

text \<open>\<^verbatim>\<open>await m;\<close> with the value dropped.\<close>

definition await_io :: "'a io \<Rightarrow> unit io" where
  "await_io m = bind_io m (\<lambda>_. lift (Inr ()))"

section \<open>The outbound sender\<close>

text \<open>The \<^verbatim>\<open>try\<close> block of \<^verbatim>\<open>sendMessage\<close>, as the \<open>n\<close>-th send of the dispatch.\<close>

definition sendMessage_try :: "world \<Rightarrow> nat \<Rightarrow> jsval \<Rightarrow> string \<Rightarrow> env \<Rightarrow> error + json" where
  "sendMessage_try w n chatId text e =
     (case telegram_post w n
             (''https://api.telegram.org/bot'' @ token_text e @ ''/sendMessage'') chatId text of
        NetworkFailure \<Rightarrow> Inl NetworkError
      | Response status body \<Rightarrow>
          (case body of
             None \<Rightarrow> Inl SyntaxError
           | Some responseData \<Rightarrow>
               if \<not> response_ok status then Inl (TelegramApiError status responseData)
               else Inr responseData))"

text \<open>\<^verbatim>\<open>sendMessage\<close>: its \<^verbatim>\<open>catch\<close> logs the error and throws it again.\<close>

definition sendMessage :: "world \<Rightarrow> jsval \<Rightarrow> string \<Rightarrow> env \<Rightarrow> json io" where
  "sendMessage w chatId text e sends =
     (let r = (case sendMessage_try w (length sends) chatId text e of
                 Inl error \<Rightarrow> Inl error
               | Inr responseData \<Rightarrow> Inr responseData)
      in (r, sends @ [Send chatId text r]))"

section \<open>The upstream data client\<close>

text \<open>A GET that throws on a transport failure, on a status that is not a success and
  on a body that is not JSON.\<close>

definition fetch_json :: "world \<Rightarrow> string \<Rightarrow> error + json" where
  "fetch_json w url =
     (case http_get w url of
        NetworkFailure \<Rightarrow> Inl NetworkError
      | Response status body \<Rightarrow>
          if \<not> response_ok status then Inl (ApiError status)
          else (case body of None \<Rightarrow> Inl SyntaxError | Some data \<Rightarrow> Inr data))"

datatype pulse_section = NewPairs | FinalStretch | Migrated

fun section_name :: "pulse_section \<Rightarrow> string" where
  "section_name NewPairs = ''new-pairs''"
| "section_name FinalStretch = ''final-stretch''"
| "section_name Migrated = ''migrated''"

definition num :: "rat \<Rightarrow> json" where
  "num q = JNum (Finite q)"

definition mockData :: "(string \<times> json list) list" where
  "mockData =
     [(''new-pairs'',
        [JObj [(''name'', JStr ''PEPE2.0''), (''symbol'', JStr ''PEPE2''),
               (''price'', num (1234 / 1000000000)), (''marketCap'', num 1250000),
               (''volume24h'', num 450000), (''holders'', num 1250),
               (''age'', JStr ''15m''), (''change24h'', num (4567 / 100))],
         JObj [(''name'', JStr ''DogeCoin Classic''), (''symbol'', JStr ''DOGEC''),
               (''price'', num (234 / 100000)), (''marketCap'', num 890000),
               (''volume24h'', num 320000), (''holders'', num 890),
               (''age'', JStr ''8m''), (''change24h'', num (- (1234 / 100)))]]),
      (''final-stretch'',
        [JObj [(''name'', JStr ''MoonShot Token''), (''symbol'', JStr ''MOON''),
               (''price'', num (456 / 10000)), (''marketCap'', num 2340000),
               (''volume24h'', num 890000), (''holders'', num 2100),
               (''age'', JStr ''2h''), (''change24h'', num (12345 / 100)),
               (''progress'', num 85)]]),
      (''migrated'',
        [JObj [(''name'', JStr ''Successful Meme''), (''symbol'', JStr ''SMEME''),
               (''price'', num (234 / 1000)), (''marketCap'', num 15600000),
               (''volume24h'', num 3400000), (''holders'', num 8900),
               (''age'', JStr ''1d''), (''change24h'', num (23456 / 100)),
               (''migrationTime'', JStr ''2h ago'')]])]"

text \<open>\<^verbatim>\<open>mockData[section] || []\<close>\<close>

definition getMockPulseData :: "pulse_section \<Rightarrow> json list" where
  "getMockPulseData section =
     (case map_of mockData (section_name section) of Some coins \<Rightarrow> coins | None \<Rightarrow> [])"

definition endpoints :: "(string \<times> string) list" where
  "endpoints =
     [(''new-pairs'', AXIOM_API @ ''/pulse/new-pairs''),
      (''final-stretch'', AXIOM_API @ ''/pulse/final-stretch''),
      (''migrated'', AXIOM_API @ ''/pulse/migrated'')]"

text \<open>\<^verbatim>\<open>v && Array.isArray(v)\<close>, with the array's elements.\<close>

definition as_array :: "jsval \<Rightarrow> json list option" where
  "as_array v = (case v of Some (JArr xs) \<Rightarrow> (if truthy v then Some xs else None) | _ \<Rightarrow> None)"

text \<open>
  The \<^verbatim>\<open>try\<close> block of \<^verbatim>\<open>fetchAxiomPulseData\<close>. A result \<open>Inl\<close> is an exception thrown in
  the block: by the transport, by \<^verbatim>\<open>response.json()\<close>, or by the read of \<^verbatim>\<open>data.data\<close> when
  the body is \<^verbatim>\<open>null\<close>.
\<close>

definition fetchAxiomPulseData_try :: "world \<Rightarrow> pulse_section \<Rightarrow> error + json list" where
  "fetchAxiomPulseData_try w section =
     (case http_get w (case map_of endpoints (section_name section) of
                         Some url \<Rightarrow> url | None \<Rightarrow> ''undefined'') of
        NetworkFailure \<Rightarrow> Inl NetworkError
      | Response status body \<Rightarrow>
          if \<not> response_ok status then Inr (getMockPulseData section)
          else
            (case body of
               None \<Rightarrow> Inl SyntaxError
             | Some data \<Rightarrow>
                 (case data of
                    JArr xs \<Rightarrow> Inr xs
                  | _ \<Rightarrow>
                      bindE (get_prop (Some data) ''data'') (\<lambda>d.
                        case as_array d of
                          Some xs \<Rightarrow> Inr xs
                        | None \<Rightarrow>
                            bindE (get_prop (Some data) ''tokens'') (\<lambda>t.
                              case as_array t of
                                Some xs \<Rightarrow> Inr xs
                              | None \<Rightarrow> Inr [])))))"

text \<open>
  \<^verbatim>\<open>fetchAxiomPulseData\<close>: the promise it returns is fulfilled on \<open>Inr\<close> and rejected on
  \<open>Inl\<close>. Its \<^verbatim>\<open>catch\<close> returns the section's mock data.
\<close>

definition fetchAxiomPulseData :: "world \<Rightarrow> pulse_section \<Rightarrow> error + json list" where
  "fetchAxiomPulseData w section =
     (case fetchAxiomPulseData_try w section of
        Inl error \<Rightarrow> Inr (getMockPulseData section)
      | Inr coins \<Rightarrow> Inr coins)"

section \<open>The response formatter\<close>

text \<open>
  \<^verbatim>\<open>formatCoinInfo\<close>, statement by statement. The icon and the text of the 24h change come
  first: a falsy \<^verbatim>\<open>change24h\<close> (absent, \<^verbatim>\<open>null\<close>, 0, empty) counts as 0; a truthy one must
  be a number, since only numbers have \<^verbatim>\<open>toFixed\<close>.
\<close>

definition jsnum_ge0 :: "jsnum \<Rightarrow> bool" where
  "jsnum_ge0 n = (case n of Finite q \<Rightarrow> 0 \<le> q | PosInfinity \<Rightarrow> True | NegInfinity \<Rightarrow> False)"

definition priceChangeParts :: "prims \<Rightarrow> jsval \<Rightarrow> error + (string \<times> string)" where
  "priceChangeParts p coin =
     bindE (get_prop coin ''change24h'') (\<lambda>change24h.
       if truthy change24h then
         (case change24h of
            Some (JNum n) \<Rightarrow>
              Inr (if jsnum_ge0 n then green_circle else red_circle, num_toFixed p 2 n)
          | _ \<Rightarrow> Inl TypeError)
       else Inr (green_circle, ''0.00''))"

definition titleLine :: "prims \<Rightarrow> jsval \<Rightarrow> nat \<Rightarrow> error + string" where
  "titleLine p coin index =
     bindE (get_prop coin ''name'') (\<lambda>name.
     bindE (escapeMarkdown p (or_else name (Some (JStr ''Unknown'')))) (\<lambda>escapedName.
     bindE (get_prop coin ''symbol'') (\<lambda>symbol.
     bindE (toUpperCase p (or_else symbol (Some (JStr ''N/A'')))) (\<lambda>upper.
     bindE (escapeMarkdown p (Some (JStr upper))) (\<lambda>escapedSymbol.
       Inr (decimal index @ bs @ ''. '' @ escapedName @ '' '' @ bs @ ''('' @ escapedSymbol
            @ bs @ '')'' @ nl))))))"

definition changeLine :: "prims \<Rightarrow> string \<Rightarrow> string \<Rightarrow> error + string" where
  "changeLine p priceChangeIcon priceChange =
     bindE (escapeMarkdown p (Some (JStr priceChange))) (\<lambda>escaped.
       Inr (priceChangeIcon @ '' 24h: '' @ escaped @ bs @ ''%'' @ nl))"

text \<open>
  The statements \<^verbatim>\<open>if (coin.f) { info += label + escapeMarkdown(text of coin.f) + end }\<close>:
  what each appends to \<^verbatim>\<open>info\<close>.
\<close>

definition priceLine :: "prims \<Rightarrow> jsval \<Rightarrow> error + string" where
  "priceLine p coin =
     bindE (get_prop coin ''price'') (\<lambda>price.
       if truthy price then
         bindE (js_toLocaleString p price) (\<lambda>s.
         bindE (escapeMarkdown p (Some (JStr s))) (\<lambda>escaped.
           Inr (money_bag @ '' Price: $'' @ escaped @ nl)))
       else Inr [])"

definition marketCapLine :: "prims \<Rightarrow> jsval \<Rightarrow> error + string" where
  "marketCapLine p coin =
     bindE (get_prop coin ''marketCap'') (\<lambda>marketCap.
       if truthy marketCap then
         bindE (js_toLocaleString p marketCap) (\<lambda>s.
         bindE (escapeMarkdown p (Some (JStr s))) (\<lambda>escaped.
           Inr (gem @ '' Market Cap: $'' @ escaped @ nl)))
       else Inr [])"

definition volumeLine :: "prims \<Rightarrow> jsval \<Rightarrow> error + string" where
  "volumeLine p coin =
     bindE (get_prop coin ''volume24h'') (\<lambda>volume24h.
       if truthy volume24h then
         bindE (js_toLocaleString p volume24h) (\<lambda>s.
         bindE (escapeMarkdown p (Some (JStr s))) (\<lambda>escaped.
           Inr (bar_chart @ '' Volume: $'' @ escaped @ nl)))
       else Inr [])"

definition holdersLine :: "prims \<Rightarrow> jsval \<Rightarrow> error + string" where
  "holdersLine p coin =
     bindE (get_prop coin ''holders'') (\<lambda>holders.
       if truthy holders then
         bindE (js_toLocaleString p holders) (\<lambda>s.
         bindE (escapeMarkdown p (Some (JStr s))) (\<lambda>escaped.
           Inr (people @ '' Holders: '' @ escaped @ nl)))
       else Inr [])"

definition ageLine :: "prims \<Rightarrow> jsval \<Rightarrow> error + string" where
  "ageLine p coin =
     bindE (get_prop coin ''age'') (\<lambda>age.
       if truthy age then
         bindE (escapeMarkdown p age) (\<lambda>escaped.
           Inr (alarm_clock @ '' Age: '' @ escaped @ nl))
       else Inr [])"

definition progressLine :: "prims \<Rightarrow> jsval \<Rightarrow> error + string" where
  "progressLine p coin =
     bindE (get_prop coin ''progress'') (\<lambda>progress.
       if truthy progress then
         bindE (js_String p progress) (\<lambda>s.
         bindE (escapeMarkdown p (Some (JStr s))) (\<lambda>escaped.
           Inr (chart_up @ '' Progress: '' @ escaped @ bs @ ''%'' @ nl)))
       else Inr [])"

definition migratedLine :: "prims \<Rightarrow> jsval \<Rightarrow> error + string" where
  "migratedLine p coin =
     bindE (get_prop coin ''migrationTime'') (\<lambda>migrationTime.
       if truthy migrationTime then
         bindE (escapeMarkdown p migrationTime) (\<lambda>escaped.
           Inr (rocket @ '' Migrated: '' @ escaped @ nl))
       else Inr [])"

definition formatCoinInfo :: "prims \<Rightarrow> jsval \<Rightarrow> nat \<Rightarrow> error + string" where
  "formatCoinInfo p coin index =
     bindE (priceChangeParts p coin) (\<lambda>(priceChangeIcon, priceChange).
     bindE (titleLine p coin index) (\<lambda>title.
     bindE (priceLine p coin) (\<lambda>price.
     bindE (changeLine p priceChangeIcon priceChange) (\<lambda>change.
     bindE (marketCapLine p coin) (\<lambda>marketCap.
     bindE (volumeLine p coin) (\<lambda>volume.
     bindE (holdersLine p coin) (\<lambda>holders.
     bindE (ageLine p coin) (\<lambda>age.
     bindE (progressLine p coin) (\<lambda>progress.
     bindE (migratedLine p coin) (\<lambda>migrated.
       Inr (title @ price @ change @ marketCap @ volume @ holders @ age @ progress
            @ migrated @ nl)))))))))))"

text \<open>
  \<^verbatim>\<open>coins.forEach((coin, index) => { message += formatCoinInfo(coin, index + 1); })\<close>,
  from the position \<open>index\<close> on: what the loop appends, or the exception that ends it.
\<close>

fun formatEach :: "prims \<Rightarrow> json list \<Rightarrow> nat \<Rightarrow> error + string" where
  "formatEach p [] index = Inr []"
| "formatEach p (coin # coins) index =
     bindE (formatCoinInfo p (Some coin) (index + 1)) (\<lambda>info.
     bindE (formatEach p coins (index + 1)) (\<lambda>more. Inr (info @ more)))"

section \<open>The command handlers\<close>

definition help_text :: string where
  "help_text =
     ''Welcome to the Crypto Price Bot'' @ bs @ ''! '' @ rocket @ nl @ nl
     @ ''Available commands:'' @ nl
     @ ''/price '' @ bs @ ''<coin'' @ bs @ ''> '' @ bs @ ''- Get price for a specific coin ''
     @ bs @ ''(e'' @ bs @ ''.g'' @ bs @ ''., /price bitcoin'' @ bs @ '')'' @ nl
     @ ''/top10 '' @ bs @ ''- Get top 10 cryptocurrencies by market cap'' @ nl
     @ ''/trending '' @ bs @ ''- Show trending coins'' @ nl
     @ ''/pulse '' @ bs @ ''- Show new coins from Axiom Trade '' @ bs
     @ ''(New Pairs, Final Stretch, Migrated'' @ bs @ '')'' @ nl
     @ ''/global '' @ bs @ ''- Show global market stats'' @ nl
     @ ''/help '' @ bs @ ''- Show this help message''"

definition try_again :: string where
  "try_again = bs @ ''. Please try again later'' @ bs @ ''.''"

definition apology_generic :: string where
  "apology_generic = cross_mark @ '' Sorry, an error occurred'' @ try_again"

definition apology_global :: string where
  "apology_global = cross_mark @ '' Failed to fetch global market stats'' @ try_again"

definition apology_pulse :: string where
  "apology_pulse = cross_mark @ '' Failed to fetch pulse data from Axiom Trade'' @ try_again"

definition apology_trending :: string where
  "apology_trending = cross_mark @ '' Failed to fetch trending coins'' @ try_again"

definition apology_top10 :: string where
  "apology_top10 = cross_mark @ '' Failed to fetch top 10 cryptocurrencies'' @ try_again"

definition fetching_text :: string where
  "fetching_text =
     arrows @ '' Fetching new coins from Axiom Trade pulse'' @ bs @ ''.'' @ bs @ ''.'' @ bs @ ''.''"

definition pulse_header :: string where
  "pulse_header = rocket @ '' *Axiom Trade Pulse '' @ bs @ ''- New Coins*'' @ nl @ nl"

definition heading_new :: string where
  "heading_new = new_button @ '' *New Pairs*'' @ nl"

definition heading_final :: string where
  "heading_final = chequered_flag @ '' *Final Stretch*'' @ nl"

definition heading_migrated :: string where
  "heading_migrated = check_mark @ '' *Migrated to Raydium*'' @ nl"

definition unable_notice :: string where
  "unable_notice =
     cross_mark @ '' Unable to fetch pulse data from Axiom Trade'' @ try_again @ nl @ nl"

definition empty_notice :: string where
  "empty_notice =
     mailbox @ '' No new coins found in pulse sections at the moment'' @ bs @ ''.'' @ nl @ nl"

definition help_footer :: string where
  "help_footer = ''/help '' @ bs @ ''- Show commands''"

definition handleGlobalCommand :: "world \<Rightarrow> prims \<Rightarrow> jsval \<Rightarrow> env \<Rightarrow> unit io" where
  "handleGlobalCommand w p chatId e =
     try_catch
       (bind_io (lift (bindE (fetch_json w (COINGECKO_API @ ''/global'')) (globalMessage p)))
          (\<lambda>message. await_io (sendMessage w chatId message e)))
       (\<lambda>error. await_io (sendMessage w chatId apology_global e))"

definition handleTrendingCommand :: "world \<Rightarrow> prims \<Rightarrow> jsval \<Rightarrow> env \<Rightarrow> unit io" where
  "handleTrendingCommand w p chatId e =
     try_catch
       (bind_io
          (lift (bindE (fetch_json w (COINGECKO_API @ ''/search/trending'')) (trendingMessage p)))
          (\<lambda>message. await_io (sendMessage w chatId message e)))
       (\<lambda>error. await_io (sendMessage w chatId apology_trending e))"

definition handleTop10Command :: "world \<Rightarrow> prims \<Rightarrow> jsval \<Rightarrow> env \<Rightarrow> unit io" where
  "handleTop10Command w p chatId e =
     try_catch
       (bind_io
          (lift (bindE
             (fetch_json w (COINGECKO_API
                @ ''/coins/markets?vs_currency=usd&order=market_cap_desc&per_page=10&page=1&sparkline=false''))
             (top10Message p)))
          (\<lambda>message. await_io (sendMessage w chatId message e)))
       (\<lambda>error. await_io (sendMessage w chatId apology_top10 e))"

text \<open>
  \<^verbatim>\<open>handlePriceCommand\<close>. The search has no hit when \<^verbatim>\<open>searchData.coins\<close> is falsy or its
  \<^verbatim>\<open>length\<close> is the number 0; the handler then sends the not-found text and returns.
\<close>

definition no_hits :: "jsval \<Rightarrow> error + bool" where
  "no_hits coins =
     (if \<not> truthy coins then Inr True
      else bindE (get_prop coins ''length'') (\<lambda>n. Inr (n = Some (JNum (Finite 0)))))"

definition not_found_text :: "string \<Rightarrow> string" where
  "not_found_text escapedCoin = cross_mark @ '' Could not find cryptocurrency: '' @ escapedCoin"

definition price_failed_text :: "string \<Rightarrow> string" where
  "price_failed_text escapedCoin =
     cross_mark @ '' Failed to fetch price for '' @ escapedCoin @ try_again"

definition coin_detail_url :: "string \<Rightarrow> string" where
  "coin_detail_url coinId =
     COINGECKO_API @ ''/coins/'' @ coinId
     @ ''?localization=false&tickers=false&market_data=true&community_data=false&developer_data=false''"

definition handlePriceCommand :: "world \<Rightarrow> prims \<Rightarrow> jsval \<Rightarrow> jsval \<Rightarrow> env \<Rightarrow> unit io" where
  "handlePriceCommand w p chatId coin e =
     try_catch
       (bind_io (lift (bindE (js_String p coin) (\<lambda>query.
                       bindE (fetch_json w (COINGECKO_API @ ''/search?query=''
                                            @ encodeURIComponent p query)) (\<lambda>searchData.
                       bindE (get_prop (Some searchData) ''coins'') (\<lambda>coins.
                       bindE (no_hits coins) (\<lambda>miss. Inr (coins, miss)))))))
          (\<lambda>(coins, miss).
             if miss then
               bind_io (lift (escapeMarkdown p coin)) (\<lambda>escapedCoin.
                 await_io (sendMessage w chatId (not_found_text escapedCoin) e))
             else
               bind_io (lift (bindE (get_first coins) (\<lambda>first.
                              bindE (get_prop first ''id'') (\<lambda>coinId.
                              bindE (js_String p coinId) (\<lambda>idText.
                              bindE (fetch_json w (coin_detail_url idText)) (priceMessage p))))))
                 (\<lambda>message. await_io (sendMessage w chatId message e))))
       (\<lambda>error.
          bind_io (lift (escapeMarkdown p coin)) (\<lambda>escapedCoin.
            await_io (sendMessage w chatId (price_failed_text escapedCoin) e)))"

text \<open>
  \<^verbatim>\<open>handlePulseCommand\<close>. The three results of \<^verbatim>\<open>Promise.allSettled\<close> are \<open>Inr\<close> (status
  fulfilled, with the value) or \<open>Inl\<close> (status rejected). A section is rendered when its
  result is fulfilled and not empty, with at most five coins.
\<close>

definition sectionBlock :: "prims \<Rightarrow> string \<Rightarrow> error + json list \<Rightarrow> error + string" where
  "sectionBlock p heading result =
     (case result of
        Inr coins \<Rightarrow>
          if length coins > 0 then
            bindE (formatEach p (take 5 coins) 0) (\<lambda>items. Inr (heading @ items @ nl))
          else Inr []
      | Inl reason \<Rightarrow> Inr [])"

definition fulfilled_empty :: "error + json list \<Rightarrow> bool" where
  "fulfilled_empty result = (case result of Inr coins \<Rightarrow> length coins = 0 | Inl reason \<Rightarrow> False)"

definition pulseNotice ::
  "error + json list \<Rightarrow> error + json list \<Rightarrow> error + json list \<Rightarrow> string" where
  "pulseNotice newPairs finalStretch migrated =
     (if isl newPairs \<and> isl finalStretch \<and> isl migrated then unable_notice
      else if fulfilled_empty newPairs \<and> fulfilled_empty finalStretch \<and> fulfilled_empty migrated
      then empty_notice
      else [])"

definition pulseMessage ::
  "prims \<Rightarrow> error + json list \<Rightarrow> error + json list \<Rightarrow> error + json list \<Rightarrow> error + string" where
  "pulseMessage p newPairs finalStretch migrated =
     bindE (sectionBlock p heading_new newPairs) (\<lambda>block1.
     bindE (sectionBlock p heading_final finalStretch) (\<lambda>block2.
     bindE (sectionBlock p heading_migrated migrated) (\<lambda>block3.
       Inr (pulse_header @ block1 @ block2 @ block3
            @ pulseNotice newPairs finalStretch migrated @ help_footer))))"

definition handlePulseCommand :: "world \<Rightarrow> prims \<Rightarrow> jsval \<Rightarrow> env \<Rightarrow> unit io" where
  "handlePulseCommand w p chatId e =
     try_catch
       (bind_io (sendMessage w chatId fetching_text e) (\<lambda>_.
        bind_io (lift (pulseMessage p (fetchAxiomPulseData w NewPairs)
                         (fetchAxiomPulseData w FinalStretch) (fetchAxiomPulseData w Migrated)))
          (\<lambda>message. await_io (sendMessage w chatId message e))))
       (\<lambda>error. await_io (sendMessage w chatId apology_pulse e))"

section \<open>The command dispatcher\<close>

text \<open>The \<^verbatim>\<open>if\<close> chain of \<^verbatim>\<open>handleTelegramUpdate\<close> on the lower-cased text.\<close>

definition dispatch :: "world \<Rightarrow> prims \<Rightarrow> jsval \<Rightarrow> string \<Rightarrow> env \<Rightarrow> unit io" where
  "dispatch w p chatId text e =
     (if text = ''/start'' \<or> text = ''/help'' then await_io (sendMessage w chatId help_text e)
      else if text = ''/top10'' then handleTop10Command w p chatId e
      else if text = ''/trending'' then handleTrendingCommand w p chatId e
      else if text = ''/pulse'' then handlePulseCommand w p chatId e
      else if text = ''/global'' then handleGlobalCommand w p chatId e
      else if startsWith text ''/price '' then
        handlePriceCommand w p chatId (element (split_on CHR '' '' text) 1) e
      else lift (Inr ()))"

text \<open>
  \<^verbatim>\<open>handleTelegramUpdate\<close> before its \<^verbatim>\<open>try\<close>: an update without a truthy \<^verbatim>\<open>message\<close> or
  \<^verbatim>\<open>message.text\<close> is dropped (\<open>Inr None\<close>); otherwise \<^verbatim>\<open>message.chat.id\<close> and
  \<^verbatim>\<open>text.toLowerCase()\<close> are read, and an exception there rejects the promise.
\<close>

definition read_update :: "prims \<Rightarrow> json \<Rightarrow> error + (jsval \<times> string) option" where
  "read_update p update =
     bindE (get_prop (Some update) ''message'') (\<lambda>message.
       if \<not> truthy message then Inr None
       else
         bindE (get_prop message ''text'') (\<lambda>text.
           if \<not> truthy text then Inr None
           else
             bindE (get_prop message ''chat'') (\<lambda>chat.
             bindE (get_prop chat ''id'') (\<lambda>chatId.
             bindE (toLowerCase p text) (\<lambda>lowered. Inr (Some (chatId, lowered)))))))"

definition handleTelegramUpdate :: "world \<Rightarrow> prims \<Rightarrow> json \<Rightarrow> env \<Rightarrow> unit io" where
  "handleTelegramUpdate w p update e =
     bind_io (lift (read_update p update)) (\<lambda>inbound.
       case inbound of
         None \<Rightarrow> lift (Inr ())
       | Some (chatId, text) \<Rightarrow>
           try_catch (dispatch w p chatId text e)
             (\<lambda>error. await_io (sendMessage w chatId apology_generic e)))"

section \<open>The worker's entry point\<close>

record request =
  req_method :: string
  req_pathname :: string
  req_origin :: string
  req_json :: "json option"

datatype response = HttpResponse string nat

definition setWebhook :: "world \<Rightarrow> prims \<Rightarrow> string \<Rightarrow> env \<Rightarrow> response" where
  "setWebhook w p url e =
     (case (case http_get w (''https://api.telegram.org/bot'' @ token_text e
                              @ ''/setWebhook?url='' @ url) of
              NetworkFailure \<Rightarrow> Inl NetworkError
            | Response status body \<Rightarrow>
                (case body of
                   None \<Rightarrow> Inl SyntaxError
                 | Some result \<Rightarrow>
                     if response_ok status then Inr (HttpResponse ''Webhook set successfully!'' 200)
                     else
                       bindE (get_prop (Some result) ''description'') (\<lambda>description.
                       bindE (js_String p description) (\<lambda>s.
                         Inr (HttpResponse (''Failed to set webhook: '' @ s) status))))) of
        Inl error \<Rightarrow> HttpResponse ''Failed to set webhook'' 500
      | Inr r \<Rightarrow> r)"

text \<open>
  \<^verbatim>\<open>fetch\<close> of the exported handler: the response, and for a webhook delivery the work handed
  to \<^verbatim>\<open>ctx.waitUntil\<close>, which runs after the response is returned: its sends and whether its
  promise was fulfilled (\<open>Inr\<close>) or rejected (\<open>Inl\<close>).
\<close>

definition worker_fetch ::
  "world \<Rightarrow> prims \<Rightarrow> request \<Rightarrow> env \<Rightarrow> response \<times> ((error + unit) \<times> send list) option" where
  "worker_fetch w p request e =
     (if \<not> truthy (map_option JStr (TELEGRAM_BOT_TOKEN e)) then
        (HttpResponse ''TELEGRAM_BOT_TOKEN not configured'' 500, None)
      else if req_method request = ''POST'' \<and> req_pathname request = WEBHOOK_ENDPOINT then
        (case req_json request of
           None \<Rightarrow> (HttpResponse ''Internal Server Error'' 500, None)
         | Some update \<Rightarrow>
             (HttpResponse ''OK'' 200, Some (handleTelegramUpdate w p update e [])))
      else if req_method request = ''GET'' \<and> req_pathname request = ''/setwebhook'' then
        (setWebhook w p (encodeURIComponent p (req_origin request @ WEBHOOK_ENDPOINT)) e, None)
      else (HttpResponse ''Not Found'' 404, None))"

section \<open>The specification's reading of a command\<close>

text \<open>
  The command of a message as the specification words it: the text is trimmed and
  lower-cased; the six command words match exactly; \<^verbatim>\<open>/price\<close> followed by a space takes
  the first whitespace-delimited token after it as its argument.
\<close>

datatype command = Help | Top10 | Trending | Pulse | Global | Price string | Unrecognized

definition is_space :: "char \<Rightarrow> bool" where
  "is_space c = (c \<in> set [CHR '' '', CHR 0x09, CHR 0x0A, CHR 0x0B, CHR 0x0C, CHR 0x0D])"

definition trim :: "string \<Rightarrow> string" where
  "trim s = rev (dropWhile is_space (rev (dropWhile is_space s)))"

definition spec_command :: "prims \<Rightarrow> string \<Rightarrow> command" where
  "spec_command p text =
     (let t = js_lower p (trim text) in
      if t = ''/start'' \<or> t = ''/help'' then Help
      else if t = ''/top10'' then Top10
      else if t = ''/trending'' then Trending
      else if t = ''/pulse'' then Pulse
      else if t = ''/global'' then Global
      else if startsWith t ''/price '' then
        Price (takeWhile (\<lambda>c. \<not> is_space c) (dropWhile is_space (drop 7 t)))
      else Unrecognized)"

text \<open>
  Two texts that differ at most in the case of their ASCII letters: at each position the
  characters are equal, or one is a letter A to Z and the other is 32 above it.
\<close>

definition is_upper :: "char \<Rightarrow> bool" where
  "is_upper c = (65 \<le> (of_char c :: nat) \<and> (of_char c :: nat) \<le> 90)"

definition same_letter :: "char \<Rightarrow> char \<Rightarrow> bool" where
  "same_letter a b =
     (a = b \<or> (is_upper a \<and> (of_char b :: nat) = of_char a + 32)
      \<or> (is_upper b \<and> (of_char a :: nat) = of_char b + 32))"

definition eq_ignore_case :: "string \<Rightarrow> string \<Rightarrow> bool" where
  "eq_ignore_case s t = list_all2 same_letter s t"

text \<open>A text occurs in another one.\<close>

fun contains :: "string \<Rightarrow> string \<Rightarrow> bool" where
  "contains [] needle = (needle = [])"
| "contains (c # cs) needle = (startsWith (c # cs) needle \<or> contains cs needle)"

section \<open>Observations on a dispatch, and sample worlds\<close>

definition send_text :: "send \<Rightarrow> string" where
  "send_text s = (case s of Send chatId text r \<Rightarrow> text)"

definition accepted :: "send \<Rightarrow> bool" where
  "accepted s = (case s of Send chatId text r \<Rightarrow> \<not> isl r)"

definition recognized :: "string \<Rightarrow> bool" where
  "recognized t =
     (t \<in> set [''/start'', ''/help'', ''/top10'', ''/trending'', ''/pulse'', ''/global'']
      \<or> startsWith t ''/price '')"

definition pulse_url :: "pulse_section \<Rightarrow> string" where
  "pulse_url section = AXIOM_API @ ''/pulse/'' @ section_name section"

text \<open>A section's fetch fails: no response, a status that is not a success, or a body
  that is not JSON.\<close>

definition fetch_fails :: "world \<Rightarrow> pulse_section \<Rightarrow> bool" where
  "fetch_fails w section =
     (case http_get w (pulse_url section) of
        NetworkFailure \<Rightarrow> True
      | Response status body \<Rightarrow> \<not> response_ok status \<or> body = None)"

text \<open>
  The normalization of a provider payload as the specification words it: a bare array is
  returned as it is, a record with an array under \<^verbatim>\<open>data\<close> gives that array, a record with
  an array under \<^verbatim>\<open>tokens\<close> gives that array, any other shape gives the empty sequence.
\<close>

definition spec_normalize :: "json \<Rightarrow> json list" where
  "spec_normalize data =
     (case data of
        JArr xs \<Rightarrow> xs
      | JObj kvs \<Rightarrow>
          (case map_of kvs ''data'' of
             Some (JArr xs) \<Rightarrow> xs
           | _ \<Rightarrow> (case map_of kvs ''tokens'' of Some (JArr xs) \<Rightarrow> xs | _ \<Rightarrow> []))
      | _ \<Rightarrow> [])"

text \<open>
  A run of at most \<open>n\<close> sends after \<open>sends\<close> in which every send but the last was
  rejected, and which ends in an exception exactly when the last was rejected too.
\<close>

definition attempts :: "nat \<Rightarrow> (error + unit) \<times> send list \<Rightarrow> send list \<Rightarrow> bool" where
  "attempts n res sends =
     (\<exists>new. snd res = sends @ new \<and> new \<noteq> [] \<and> length new \<le> n
        \<and> list_all (\<lambda>s. \<not> accepted s) (butlast new)
        \<and> (isl (fst res) \<longleftrightarrow> \<not> accepted (last new)))"

text \<open>An optional field of a listing is absent, or the number 0.\<close>

definition absent_or_zero :: "(string \<times> json) list \<Rightarrow> string \<Rightarrow> bool" where
  "absent_or_zero kvs k = (map_of kvs k = None \<or> map_of kvs k = Some (JNum (Finite 0)))"

text \<open>A runtime and an environment for the closed examples.\<close>

definition sample_prims :: prims where
  "sample_prims =
     \<lparr> num_toLocaleString = (\<lambda>n. ''1''), num_toFixed = (\<lambda>d n. ''1.00''),
       num_toString = (\<lambda>n. ''1''), obj_toString = (\<lambda>v. Inr ''[object Object]''),
       obj_toLocaleString = (\<lambda>v. Inr ''[object Object]''), str_toUpperCase = (\<lambda>s. s),
       str_toLowerCase = (\<lambda>s. s),
       encodeURIComponent = (\<lambda>s. s), globalMessage = (\<lambda>v. Inl TypeError),
       trendingMessage = (\<lambda>v. Inl TypeError), top10Message = (\<lambda>v. Inl TypeError),
       priceMessage = (\<lambda>v. Inl TypeError) \<rparr>"

definition sample_env :: env where
  "sample_env = \<lparr> TELEGRAM_BOT_TOKEN = Some ''123:abc'' \<rparr>"

definition telegram_ok :: json where
  "telegram_ok = JObj [(''ok'', JBool True)]"

text \<open>Every provider is unreachable; the chat platform accepts every send.\<close>

definition providers_down :: world where
  "providers_down =
     \<lparr> http_get = (\<lambda>url. NetworkFailure),
       telegram_post = (\<lambda>n url chatId text. Response 200 (Some telegram_ok)) \<rparr>"

text \<open>Every provider is unreachable; the chat platform rejects every send.\<close>

definition platform_rejects :: world where
  "platform_rejects =
     \<lparr> http_get = (\<lambda>url. NetworkFailure),
       telegram_post = (\<lambda>n url chatId text. Response 400 (Some (JObj [(''ok'', JBool False)]))) \<rparr>"

text \<open>Every GET is answered with status 200 and the given body; every send is accepted.\<close>

definition providers_answer :: "json \<Rightarrow> world" where
  "providers_answer body =
     \<lparr> http_get = (\<lambda>url. Response 200 (Some body)),
       telegram_post = (\<lambda>n url chatId text. Response 200 (Some telegram_ok)) \<rparr>"

definition text_update :: "jsval \<Rightarrow> string \<Rightarrow> json" where
  "text_update chat text =
     JObj [(''update_id'', num 1),
           (''message'', JObj ((case chat of None \<Rightarrow> [] | Some c \<Rightarrow> [(''chat'', c)])
                               @ [(''text'', JStr text)]))]"

section \<open>The markup escaper: properties\<close>

lemma reserved_class_spec: "set reserved_class = spec_reserved"
  by (simp add: reserved_class_def spec_reserved_def)

lemma replace_reserved_spec: "replace_reserved s = spec_escape s"
  by (induction s) (simp_all add: spec_escape_def reserved_class_spec)

lemma replace_reserved_length:
  "length (replace_reserved s) = length s + length (filter (\<lambda>c. c \<in> spec_reserved) s)"
  by (induction s) (simp_all add: reserved_class_spec)

lemma replace_reserved_keeps:
  "filter (\<lambda>c. c \<noteq> backslash) (replace_reserved s) = filter (\<lambda>c. c \<noteq> backslash) s"
  by (induction s) (simp_all add: reserved_class_spec)

lemma escape_str: "escapeMarkdown p (Some (JStr s)) = Inr (replace_reserved s)"
  by (simp add: escapeMarkdown_def bindE_def)

text \<open>
  C2. The escaper maps \<^verbatim>\<open>undefined\<close> and \<^verbatim>\<open>null\<close> to the empty string, and a string to
  the string in which each character of the reserved set is prefixed with a backslash and
  every other character is left unchanged: the result is one backslash longer per reserved
  character, and without the backslashes it reads as the input does.
\<close>

theorem escapeMarkdown_spec:
  "escapeMarkdown p None = Inr []
   \<and> escapeMarkdown p (Some JNull) = Inr []
   \<and> escapeMarkdown p (Some (JStr s)) = Inr (spec_escape s)
   \<and> length (spec_escape s) = length s + length (filter (\<lambda>c. c \<in> spec_reserved) s)
   \<and> filter (\<lambda>c. c \<noteq> backslash) (spec_escape s) = filter (\<lambda>c. c \<noteq> backslash) s"
  using replace_reserved_length [of s] replace_reserved_keeps [of s]
  by (simp add: escapeMarkdown_def bindE_def replace_reserved_spec)

theorem escapeMarkdown_spec_witness:
  "escapeMarkdown sample_prims (Some (JStr ''a_b.c!'')) =
     Inr (''a'' @ bs @ ''_b'' @ bs @ ''.c'' @ bs @ ''!'')"
  using escapeMarkdown_spec [of sample_prims "''a_b.c!''"]
  by (simp add: spec_escape_def spec_reserved_def)

section \<open>The pulse section fetch: properties\<close>

lemma endpoints_url:
  "(case map_of endpoints (section_name s) of Some url \<Rightarrow> url | None \<Rightarrow> ''undefined'') = pulse_url s"
  by (cases s) (simp_all add: endpoints_def pulse_url_def)

lemma mock_lengths:
  "length (getMockPulseData NewPairs) = 2"
  "length (getMockPulseData FinalStretch) = 1"
  "length (getMockPulseData Migrated) = 1"
  by (simp_all add: getMockPulseData_def mockData_def)

lemma mock_nonempty: "getMockPulseData s \<noteq> []"
  using mock_lengths by (cases s) auto

lemma fetch_fulfilled: "\<exists>coins. fetchAxiomPulseData w s = Inr coins"
  by (simp add: fetchAxiomPulseData_def split: sum.splits)

lemma fetch_fails_mock: "fetch_fails w s \<Longrightarrow> fetchAxiomPulseData w s = Inr (getMockPulseData s)"
  by (auto simp add: fetch_fails_def fetchAxiomPulseData_def fetchAxiomPulseData_try_def endpoints_url
      split: http_result.splits sum.splits option.splits)

lemma fetch_ok_shape:
  assumes "http_get w (pulse_url s) = Response status (Some data)" "response_ok status"
  shows "fetchAxiomPulseData w s =
           Inr (if data = JNull then getMockPulseData s else spec_normalize data)"
  using assms
  by (cases data)
     (auto simp add: fetchAxiomPulseData_def fetchAxiomPulseData_try_def endpoints_url bindE_def
        as_array_def spec_normalize_def split: option.splits json.splits)

text \<open>
  C3, as the code has it. A single-section fetch never fails: its promise is always
  fulfilled. On a transport failure, a status that is not a success or a body that is not
  JSON it gives the section's fallback fixture. A successful JSON response is normalized by
  shape (a bare array as it is, the array under \<^verbatim>\<open>data\<close>, else the array under \<^verbatim>\<open>tokens\<close>,
  else the empty sequence), except that the body \<^verbatim>\<open>null\<close> gives the fallback fixture too:
  reading \<^verbatim>\<open>data.data\<close> of \<^verbatim>\<open>null\<close> throws inside the \<^verbatim>\<open>try\<close>.
\<close>

theorem fetchAxiomPulseData_outcomes:
  "(\<exists>coins. fetchAxiomPulseData w s = Inr coins)
   \<and> (fetch_fails w s \<longrightarrow> fetchAxiomPulseData w s = Inr (getMockPulseData s))
   \<and> (http_get w (pulse_url s) = Response status (Some data) \<and> response_ok status \<longrightarrow>
        fetchAxiomPulseData w s =
          Inr (if data = JNull then getMockPulseData s else spec_normalize data))"
  using fetch_fulfilled [of w s] fetch_fails_mock [of w s] fetch_ok_shape [of w s status data]
  by blast

text \<open>
  Two instances: an unreachable provider, and a record with an array under \<^verbatim>\<open>tokens\<close>.
\<close>

theorem fetchAxiomPulseData_outcomes_witness:
  "fetchAxiomPulseData providers_down Migrated = Inr (getMockPulseData Migrated)
   \<and> fetchAxiomPulseData (providers_answer (JObj [(''tokens'', JArr [JStr ''t''])])) NewPairs
       = Inr [JStr ''t'']"
proof -
  have "fetch_fails providers_down Migrated"
    by (simp add: fetch_fails_def providers_down_def)
  then have a: "fetchAxiomPulseData providers_down Migrated = Inr (getMockPulseData Migrated)"
    using fetchAxiomPulseData_outcomes [of providers_down Migrated] by blast
  have "http_get (providers_answer (JObj [(''tokens'', JArr [JStr ''t''])])) (pulse_url NewPairs)
          = Response 200 (Some (JObj [(''tokens'', JArr [JStr ''t''])])) \<and> response_ok 200"
    by (simp add: providers_answer_def response_ok_def)
  then have "fetchAxiomPulseData (providers_answer (JObj [(''tokens'', JArr [JStr ''t''])])) NewPairs
       = Inr (if JObj [(''tokens'', JArr [JStr ''t''])] = JNull then getMockPulseData NewPairs
              else spec_normalize (JObj [(''tokens'', JArr [JStr ''t''])]))"
    using fetchAxiomPulseData_outcomes
      [of "providers_answer (JObj [(''tokens'', JArr [JStr ''t''])])" NewPairs 200
          "JObj [(''tokens'', JArr [JStr ''t''])]"]
    by blast
  then have b: "fetchAxiomPulseData (providers_answer (JObj [(''tokens'', JArr [JStr ''t''])])) NewPairs
       = Inr [JStr ''t'']"
    by (simp add: spec_normalize_def)
  from a b show ?thesis by simp
qed

text \<open>
  C3 as stated fails on the body \<^verbatim>\<open>null\<close>: it is a successful JSON response of none of
  the three shapes, and the fetch gives the two fixture coins, not the empty sequence.
\<close>

theorem fetchAxiomPulseData_null_body:
  "fetchAxiomPulseData (providers_answer JNull) NewPairs \<noteq> Inr (spec_normalize JNull)
   \<and> fetchAxiomPulseData (providers_answer JNull) NewPairs = Inr (getMockPulseData NewPairs)
   \<and> length (getMockPulseData NewPairs) = 2"
  by (simp add: fetchAxiomPulseData_def fetchAxiomPulseData_try_def providers_answer_def
      response_ok_def bindE_def spec_normalize_def getMockPulseData_def mockData_def)

section \<open>The /pulse handler: properties\<close>

lemma notice_values:
  "pulseNotice (fetchAxiomPulseData w NewPairs) (fetchAxiomPulseData w FinalStretch)
       (fetchAxiomPulseData w Migrated) =
     (if fetchAxiomPulseData w NewPairs = Inr [] \<and> fetchAxiomPulseData w FinalStretch = Inr []
         \<and> fetchAxiomPulseData w Migrated = Inr []
      then empty_notice else [])"
  using fetch_fulfilled [of w NewPairs] fetch_fulfilled [of w FinalStretch]
    fetch_fulfilled [of w Migrated]
  by (auto simp add: pulseNotice_def fulfilled_empty_def)

lemma unable_notice_differs: "unable_notice \<noteq> [] \<and> unable_notice \<noteq> empty_notice"
  by (simp add: unable_notice_def empty_notice_def)

lemma sendMessage_eq:
  "sendMessage w c t e sends =
     (sendMessage_try w (length sends) c t e,
      sends @ [Send c t (sendMessage_try w (length sends) c t e)])"
  by (simp add: sendMessage_def Let_def split: sum.splits)

lemma await_send:
  "await_io (sendMessage w c t e) sends =
     (case sendMessage_try w (length sends) c t e of Inl err \<Rightarrow> Inl err | Inr d \<Rightarrow> Inr (),
      sends @ [Send c t (sendMessage_try w (length sends) c t e)])"
  by (simp add: await_io_def bind_io_def lift_def sendMessage_eq split: sum.splits)

lemma pulse_texts:
  assumes "handlePulseCommand w p c e sends = (r, out)"
  shows "\<forall>s \<in> set out - set sends. send_text s = fetching_text \<or> send_text s = apology_pulse
     \<or> pulseMessage p (fetchAxiomPulseData w NewPairs) (fetchAxiomPulseData w FinalStretch)
          (fetchAxiomPulseData w Migrated) = Inr (send_text s)"
  using assms
  by (auto simp add: handlePulseCommand_def try_catch_def bind_io_def lift_def await_send
      sendMessage_eq send_text_def split: sum.splits prod.splits)

lemma pulse_message_shape:
  assumes "pulseMessage p a b c = Inr m"
  shows "\<exists>b1 b2 b3. sectionBlock p heading_new a = Inr b1
     \<and> sectionBlock p heading_final b = Inr b2 \<and> sectionBlock p heading_migrated c = Inr b3
     \<and> m = pulse_header @ b1 @ b2 @ b3 @ pulseNotice a b c @ help_footer"
  using assms by (auto simp add: pulseMessage_def bindE_def split: sum.splits)

text \<open>
  C10. Whatever the three section fetches meet, none of the three promises is rejected, so
  the branch for three rejected sections is never taken and its notice is never made part
  of a reply: every text that the /pulse handler sends is the progress notice, the
  handler's apology, or the pulse message, which is the header, the three section blocks,
  a notice that is empty or the no-new-coins notice, and the footer.
\<close>

theorem pulse_unable_unreachable:
  assumes "handlePulseCommand w p c e [] = (r, out)"
  shows "\<not> isl (fetchAxiomPulseData w NewPairs) \<and> \<not> isl (fetchAxiomPulseData w FinalStretch)
     \<and> \<not> isl (fetchAxiomPulseData w Migrated)
     \<and> pulseNotice (fetchAxiomPulseData w NewPairs) (fetchAxiomPulseData w FinalStretch)
          (fetchAxiomPulseData w Migrated) \<noteq> unable_notice
     \<and> (\<forall>s \<in> set out.
           send_text s = fetching_text \<or> send_text s = apology_pulse
           \<or> (\<exists>b1 b2 b3 notice.
                 sectionBlock p heading_new (fetchAxiomPulseData w NewPairs) = Inr b1
               \<and> sectionBlock p heading_final (fetchAxiomPulseData w FinalStretch) = Inr b2
               \<and> sectionBlock p heading_migrated (fetchAxiomPulseData w Migrated) = Inr b3
               \<and> (notice = [] \<or> notice = empty_notice)
               \<and> send_text s = pulse_header @ b1 @ b2 @ b3 @ notice @ help_footer))"
proof -
  let ?a = "fetchAxiomPulseData w NewPairs"
  let ?b = "fetchAxiomPulseData w FinalStretch"
  let ?c = "fetchAxiomPulseData w Migrated"
  have ful: "\<not> isl ?a \<and> \<not> isl ?b \<and> \<not> isl ?c"
    using fetch_fulfilled [of w NewPairs] fetch_fulfilled [of w FinalStretch]
      fetch_fulfilled [of w Migrated] by auto
  have notice: "pulseNotice ?a ?b ?c = [] \<or> pulseNotice ?a ?b ?c = empty_notice"
    by (simp add: notice_values)
  then have ne: "pulseNotice ?a ?b ?c \<noteq> unable_notice"
    using unable_notice_differs by auto
  have "\<forall>s \<in> set out.
           send_text s = fetching_text \<or> send_text s = apology_pulse
           \<or> (\<exists>b1 b2 b3 notice.
                 sectionBlock p heading_new ?a = Inr b1
               \<and> sectionBlock p heading_final ?b = Inr b2
               \<and> sectionBlock p heading_migrated ?c = Inr b3
               \<and> (notice = [] \<or> notice = empty_notice)
               \<and> send_text s = pulse_header @ b1 @ b2 @ b3 @ notice @ help_footer)"
  proof
    fix s assume "s \<in> set out"
    then have "send_text s = fetching_text \<or> send_text s = apology_pulse
       \<or> pulseMessage p ?a ?b ?c = Inr (send_text s)"
      using pulse_texts [OF assms] by simp
    then show "send_text s = fetching_text \<or> send_text s = apology_pulse
           \<or> (\<exists>b1 b2 b3 notice.
                 sectionBlock p heading_new ?a = Inr b1
               \<and> sectionBlock p heading_final ?b = Inr b2
               \<and> sectionBlock p heading_migrated ?c = Inr b3
               \<and> (notice = [] \<or> notice = empty_notice)
               \<and> send_text s = pulse_header @ b1 @ b2 @ b3 @ notice @ help_footer)"
      using pulse_message_shape [of p ?a ?b ?c "send_text s"] notice by blast
  qed
  with ful ne show ?thesis by blast
qed

text \<open>
  An instance: with every provider down, the three promises are fulfilled with the
  fixtures and the handler sends the progress notice and the pulse message.
\<close>

theorem pulse_unable_unreachable_witness:
  "\<not> isl (fetchAxiomPulseData providers_down NewPairs)
   \<and> pulseNotice (fetchAxiomPulseData providers_down NewPairs)
        (fetchAxiomPulseData providers_down FinalStretch)
        (fetchAxiomPulseData providers_down Migrated) \<noteq> unable_notice
   \<and> length (snd (handlePulseCommand providers_down sample_prims (Some (num 7)) sample_env [])) = 2"
proof -
  let ?res = "handlePulseCommand providers_down sample_prims (Some (num 7)) sample_env []"
  have "?res = (fst ?res, snd ?res)" by simp
  from pulse_unable_unreachable [OF this]
  have "\<not> isl (fetchAxiomPulseData providers_down NewPairs)
     \<and> pulseNotice (fetchAxiomPulseData providers_down NewPairs)
        (fetchAxiomPulseData providers_down FinalStretch)
        (fetchAxiomPulseData providers_down Migrated) \<noteq> unable_notice"
    by blast
  moreover have "length (snd ?res) = 2"
    by code_simp
  ultimately show ?thesis by blast
qed

lemmas line_defs = priceChangeParts_def titleLine_def changeLine_def priceLine_def
  marketCapLine_def volumeLine_def holdersLine_def ageLine_def progressLine_def migratedLine_def

lemma mock_items_format:
  "\<exists>a1 a2. formatCoinInfo p (Some (getMockPulseData NewPairs ! 0)) 1 = Inr a1
      \<and> formatCoinInfo p (Some (getMockPulseData NewPairs ! 1)) 2 = Inr a2"
  "\<exists>b1. formatCoinInfo p (Some (getMockPulseData FinalStretch ! 0)) 1 = Inr b1"
  "\<exists>c1. formatCoinInfo p (Some (getMockPulseData Migrated ! 0)) 1 = Inr c1"
  by (simp_all add: getMockPulseData_def mockData_def formatCoinInfo_def line_defs bindE_def
      escape_str toUpperCase_def js_String_def num_def or_else_def)

lemma mock_lists:
  "getMockPulseData NewPairs = [getMockPulseData NewPairs ! 0, getMockPulseData NewPairs ! 1]"
  "getMockPulseData FinalStretch = [getMockPulseData FinalStretch ! 0]"
  "getMockPulseData Migrated = [getMockPulseData Migrated ! 0]"
  by (simp_all add: getMockPulseData_def mockData_def)

lemma block_two:
  assumes "formatCoinInfo p (Some x) 1 = Inr a1" "formatCoinInfo p (Some y) 2 = Inr a2"
  shows "sectionBlock p h (Inr [x, y]) = Inr (h @ a1 @ a2 @ nl)"
  using assms by (simp add: sectionBlock_def bindE_def numeral_2_eq_2)

lemma block_one:
  assumes "formatCoinInfo p (Some x) 1 = Inr a1"
  shows "sectionBlock p h (Inr [x]) = Inr (h @ a1 @ nl)"
  using assms by (simp add: sectionBlock_def bindE_def)

lemma pulse_failed_message:
  assumes "fetch_fails w NewPairs" "fetch_fails w FinalStretch" "fetch_fails w Migrated"
  shows "\<exists>a1 a2 b1 c1.
       getMockPulseData NewPairs = [getMockPulseData NewPairs ! 0, getMockPulseData NewPairs ! 1]
     \<and> getMockPulseData FinalStretch = [getMockPulseData FinalStretch ! 0]
     \<and> getMockPulseData Migrated = [getMockPulseData Migrated ! 0]
     \<and> formatCoinInfo p (Some (getMockPulseData NewPairs ! 0)) 1 = Inr a1
     \<and> formatCoinInfo p (Some (getMockPulseData NewPairs ! 1)) 2 = Inr a2
     \<and> formatCoinInfo p (Some (getMockPulseData FinalStretch ! 0)) 1 = Inr b1
     \<and> formatCoinInfo p (Some (getMockPulseData Migrated ! 0)) 1 = Inr c1
     \<and> pulseMessage p (fetchAxiomPulseData w NewPairs) (fetchAxiomPulseData w FinalStretch)
          (fetchAxiomPulseData w Migrated)
        = Inr (pulse_header @ (heading_new @ a1 @ a2 @ nl) @ (heading_final @ b1 @ nl)
               @ (heading_migrated @ c1 @ nl) @ help_footer)"
proof -
  obtain a1 a2 b1 c1 where f:
    "formatCoinInfo p (Some (getMockPulseData NewPairs ! 0)) 1 = Inr a1"
    "formatCoinInfo p (Some (getMockPulseData NewPairs ! 1)) 2 = Inr a2"
    "formatCoinInfo p (Some (getMockPulseData FinalStretch ! 0)) 1 = Inr b1"
    "formatCoinInfo p (Some (getMockPulseData Migrated ! 0)) 1 = Inr c1"
    using mock_items_format [of p] by blast
  have r: "fetchAxiomPulseData w NewPairs = Inr (getMockPulseData NewPairs)"
    "fetchAxiomPulseData w FinalStretch = Inr (getMockPulseData FinalStretch)"
    "fetchAxiomPulseData w Migrated = Inr (getMockPulseData Migrated)"
    using assms by (simp_all add: fetch_fails_mock)
  have b1: "sectionBlock p heading_new (Inr (getMockPulseData NewPairs)) = Inr (heading_new @ a1 @ a2 @ nl)"
    using block_two [OF f(1) f(2)] mock_lists(1) by metis
  have b2: "sectionBlock p heading_final (Inr (getMockPulseData FinalStretch)) = Inr (heading_final @ b1 @ nl)"
    using block_one [OF f(3)] mock_lists(2) by metis
  have b3: "sectionBlock p heading_migrated (Inr (getMockPulseData Migrated)) = Inr (heading_migrated @ c1 @ nl)"
    using block_one [OF f(4)] mock_lists(3) by metis
  have n: "pulseNotice (Inr (getMockPulseData NewPairs)) (Inr (getMockPulseData FinalStretch))
     (Inr (getMockPulseData Migrated)) = []"
    using mock_nonempty [of NewPairs] by (simp add: pulseNotice_def fulfilled_empty_def)
  have "pulseMessage p (fetchAxiomPulseData w NewPairs) (fetchAxiomPulseData w FinalStretch)
          (fetchAxiomPulseData w Migrated)
        = Inr (pulse_header @ (heading_new @ a1 @ a2 @ nl) @ (heading_final @ b1 @ nl)
               @ (heading_migrated @ c1 @ nl) @ help_footer)"
    unfolding r pulseMessage_def b1 b2 b3 n by (simp add: bindE_def)
  with f mock_lists show ?thesis by blast
qed

lemma pulse_reply:
  assumes "pulseMessage p (fetchAxiomPulseData w NewPairs) (fetchAxiomPulseData w FinalStretch)
             (fetchAxiomPulseData w Migrated) = Inr m"
    and "sendMessage_try w (length sends) c fetching_text e = Inr d"
  shows "\<exists>r2 rest. snd (handlePulseCommand w p c e sends)
           = sends @ [Send c fetching_text (Inr d), Send c m r2] @ rest"
  using assms
  by (auto simp add: handlePulseCommand_def try_catch_def bind_io_def lift_def await_send
      sendMessage_eq split: sum.splits prod.splits)

text \<open>
  C4, as the code has it. The fallback fixtures hold two, one and one coins. When all
  three section fetches fail, the pulse message renders every fixture coin under its
  section's heading (not five per section: five is only the cap), has no notice, and is the
  text of the send that follows an accepted progress notice. The no-new-coins notice is
  rendered exactly when all three sections resolve to the empty listing, which a failed
  fetch never does.
\<close>

theorem pulse_fallback_reply:
  "length (getMockPulseData NewPairs) = 2 \<and> length (getMockPulseData FinalStretch) = 1
   \<and> length (getMockPulseData Migrated) = 1
   \<and> pulseNotice (fetchAxiomPulseData w NewPairs) (fetchAxiomPulseData w FinalStretch)
        (fetchAxiomPulseData w Migrated)
      = (if fetchAxiomPulseData w NewPairs = Inr [] \<and> fetchAxiomPulseData w FinalStretch = Inr []
            \<and> fetchAxiomPulseData w Migrated = Inr []
         then empty_notice else [])
   \<and> (fetch_fails w s \<longrightarrow> fetchAxiomPulseData w s \<noteq> Inr [])
   \<and> (fetch_fails w NewPairs \<and> fetch_fails w FinalStretch \<and> fetch_fails w Migrated \<longrightarrow>
        (\<exists>a1 a2 b1 c1.
           formatCoinInfo p (Some (getMockPulseData NewPairs ! 0)) 1 = Inr a1
         \<and> formatCoinInfo p (Some (getMockPulseData NewPairs ! 1)) 2 = Inr a2
         \<and> formatCoinInfo p (Some (getMockPulseData FinalStretch ! 0)) 1 = Inr b1
         \<and> formatCoinInfo p (Some (getMockPulseData Migrated ! 0)) 1 = Inr c1
         \<and> pulseMessage p (fetchAxiomPulseData w NewPairs) (fetchAxiomPulseData w FinalStretch)
              (fetchAxiomPulseData w Migrated)
            = Inr (pulse_header @ (heading_new @ a1 @ a2 @ nl) @ (heading_final @ b1 @ nl)
                   @ (heading_migrated @ c1 @ nl) @ help_footer)
         \<and> (sendMessage_try w (length sends) c fetching_text e = Inr d \<longrightarrow>
              (\<exists>r2 rest. snd (handlePulseCommand w p c e sends)
                 = sends @ [Send c fetching_text (Inr d),
                            Send c (pulse_header @ (heading_new @ a1 @ a2 @ nl)
                                    @ (heading_final @ b1 @ nl)
                                    @ (heading_migrated @ c1 @ nl) @ help_footer) r2] @ rest))))"
proof -
  have n: "fetch_fails w s \<longrightarrow> fetchAxiomPulseData w s \<noteq> Inr []"
    using fetch_fails_mock [of w s] mock_nonempty [of s] by auto
  have m: "fetch_fails w NewPairs \<and> fetch_fails w FinalStretch \<and> fetch_fails w Migrated \<longrightarrow>
        (\<exists>a1 a2 b1 c1.
           formatCoinInfo p (Some (getMockPulseData NewPairs ! 0)) 1 = Inr a1
         \<and> formatCoinInfo p (Some (getMockPulseData NewPairs ! 1)) 2 = Inr a2
         \<and> formatCoinInfo p (Some (getMockPulseData FinalStretch ! 0)) 1 = Inr b1
         \<and> formatCoinInfo p (Some (getMockPulseData Migrated ! 0)) 1 = Inr c1
         \<and> pulseMessage p (fetchAxiomPulseData w NewPairs) (fetchAxiomPulseData w FinalStretch)
              (fetchAxiomPulseData w Migrated)
            = Inr (pulse_header @ (heading_new @ a1 @ a2 @ nl) @ (heading_final @ b1 @ nl)
                   @ (heading_migrated @ c1 @ nl) @ help_footer)
         \<and> (sendMessage_try w (length sends) c fetching_text e = Inr d \<longrightarrow>
              (\<exists>r2 rest. snd (handlePulseCommand w p c e sends)
                 = sends @ [Send c fetching_text (Inr d),
                            Send c (pulse_header @ (heading_new @ a1 @ a2 @ nl)
                                    @ (heading_final @ b1 @ nl)
                                    @ (heading_migrated @ c1 @ nl) @ help_footer) r2] @ rest)))"
  proof
    assume "fetch_fails w NewPairs \<and> fetch_fails w FinalStretch \<and> fetch_fails w Migrated"
    then obtain a1 a2 b1 c1 where f:
      "formatCoinInfo p (Some (getMockPulseData NewPairs ! 0)) 1 = Inr a1"
      "formatCoinInfo p (Some (getMockPulseData NewPairs ! 1)) 2 = Inr a2"
      "formatCoinInfo p (Some (getMockPulseData FinalStretch ! 0)) 1 = Inr b1"
      "formatCoinInfo p (Some (getMockPulseData Migrated ! 0)) 1 = Inr c1"
      "pulseMessage p (fetchAxiomPulseData w NewPairs) (fetchAxiomPulseData w FinalStretch)
              (fetchAxiomPulseData w Migrated)
            = Inr (pulse_header @ (heading_new @ a1 @ a2 @ nl) @ (heading_final @ b1 @ nl)
                   @ (heading_migrated @ c1 @ nl) @ help_footer)"
      using pulse_failed_message [of w p] by blast
    have "sendMessage_try w (length sends) c fetching_text e = Inr d \<longrightarrow>
              (\<exists>r2 rest. snd (handlePulseCommand w p c e sends)
                 = sends @ [Send c fetching_text (Inr d),
                            Send c (pulse_header @ (heading_new @ a1 @ a2 @ nl)
                                    @ (heading_final @ b1 @ nl)
                                    @ (heading_migrated @ c1 @ nl) @ help_footer) r2] @ rest)"
      using pulse_reply [OF f(5), of sends c e d] by blast
    with f show "\<exists>a1 a2 b1 c1.
           formatCoinInfo p (Some (getMockPulseData NewPairs ! 0)) 1 = Inr a1
         \<and> formatCoinInfo p (Some (getMockPulseData NewPairs ! 1)) 2 = Inr a2
         \<and> formatCoinInfo p (Some (getMockPulseData FinalStretch ! 0)) 1 = Inr b1
         \<and> formatCoinInfo p (Some (getMockPulseData Migrated ! 0)) 1 = Inr c1
         \<and> pulseMessage p (fetchAxiomPulseData w NewPairs) (fetchAxiomPulseData w FinalStretch)
              (fetchAxiomPulseData w Migrated)
            = Inr (pulse_header @ (heading_new @ a1 @ a2 @ nl) @ (heading_final @ b1 @ nl)
                   @ (heading_migrated @ c1 @ nl) @ help_footer)
         \<and> (sendMessage_try w (length sends) c fetching_text e = Inr d \<longrightarrow>
              (\<exists>r2 rest. snd (handlePulseCommand w p c e sends)
                 = sends @ [Send c fetching_text (Inr d),
                            Send c (pulse_header @ (heading_new @ a1 @ a2 @ nl)
                                    @ (heading_final @ b1 @ nl)
                                    @ (heading_migrated @ c1 @ nl) @ help_footer) r2] @ rest))"
      by blast
  qed
  from mock_lengths notice_values [of w] n m show ?thesis by (intro conjI)
qed

text \<open>
  An instance: every provider is down.
\<close>

theorem pulse_fallback_reply_witness:
  "fetch_fails providers_down NewPairs \<and> fetch_fails providers_down FinalStretch
   \<and> fetch_fails providers_down Migrated
   \<and> (\<exists>a1 a2 b1 c1.
         pulseMessage sample_prims (fetchAxiomPulseData providers_down NewPairs)
              (fetchAxiomPulseData providers_down FinalStretch)
              (fetchAxiomPulseData providers_down Migrated)
            = Inr (pulse_header @ (heading_new @ a1 @ a2 @ nl) @ (heading_final @ b1 @ nl)
                   @ (heading_migrated @ c1 @ nl) @ help_footer))"
proof -
  have f: "fetch_fails providers_down NewPairs" "fetch_fails providers_down FinalStretch"
    "fetch_fails providers_down Migrated"
    by (simp_all add: fetch_fails_def providers_down_def)
  with pulse_fallback_reply [of providers_down NewPairs sample_prims "[]" "Some (num 7)" sample_env telegram_ok]
  have "\<exists>a1 a2 b1 c1.
         pulseMessage sample_prims (fetchAxiomPulseData providers_down NewPairs)
              (fetchAxiomPulseData providers_down FinalStretch)
              (fetchAxiomPulseData providers_down Migrated)
            = Inr (pulse_header @ (heading_new @ a1 @ a2 @ nl) @ (heading_final @ b1 @ nl)
                   @ (heading_migrated @ c1 @ nl) @ help_footer)"
    by blast
  with f show ?thesis by (intro conjI)
qed

text \<open>
  C4 as stated fails: with all three fetches failed, the sections resolve to the
  fixtures, of which the handler's cap of five leaves two, one and one coins.
\<close>

theorem fallback_has_fewer_than_five:
  "fetch_fails providers_down NewPairs \<and> fetch_fails providers_down FinalStretch
   \<and> fetch_fails providers_down Migrated
   \<and> fetchAxiomPulseData providers_down NewPairs = Inr (getMockPulseData NewPairs)
   \<and> length (take 5 (getMockPulseData NewPairs)) = 2
   \<and> fetchAxiomPulseData providers_down FinalStretch = Inr (getMockPulseData FinalStretch)
   \<and> length (take 5 (getMockPulseData FinalStretch)) = 1
   \<and> fetchAxiomPulseData providers_down Migrated = Inr (getMockPulseData Migrated)
   \<and> length (take 5 (getMockPulseData Migrated)) = 1"
  by (simp add: fetch_fails_def fetchAxiomPulseData_def fetchAxiomPulseData_try_def
      providers_down_def getMockPulseData_def mockData_def)

section \<open>The pulse listing formatter: properties\<close>

lemma absent_or_zero_falsy: "absent_or_zero kvs k \<Longrightarrow> \<not> truthy (map_of kvs k)"
  by (auto simp add: absent_or_zero_def)

lemma optional_lines_empty:
  assumes "\<not> truthy (map_of kvs k)"
  shows "k = ''price'' \<Longrightarrow> priceLine p (Some (JObj kvs)) = Inr []"
    and "k = ''marketCap'' \<Longrightarrow> marketCapLine p (Some (JObj kvs)) = Inr []"
    and "k = ''volume24h'' \<Longrightarrow> volumeLine p (Some (JObj kvs)) = Inr []"
    and "k = ''holders'' \<Longrightarrow> holdersLine p (Some (JObj kvs)) = Inr []"
    and "k = ''age'' \<Longrightarrow> ageLine p (Some (JObj kvs)) = Inr []"
    and "k = ''progress'' \<Longrightarrow> progressLine p (Some (JObj kvs)) = Inr []"
    and "k = ''migrationTime'' \<Longrightarrow> migratedLine p (Some (JObj kvs)) = Inr []"
  using assms by (simp_all add: line_defs bindE_def)

lemma change_default:
  assumes "\<not> truthy (map_of kvs ''change24h'')"
  shows "priceChangeParts p (Some (JObj kvs)) = Inr (green_circle, ''0.00'')"
  using assms by (simp add: priceChangeParts_def bindE_def)

lemma change_default_line:
  "changeLine p green_circle ''0.00'' = Inr (green_circle @ '' 24h: 0'' @ bs @ ''.00'' @ bs @ ''%'' @ nl)"
  by (simp add: changeLine_def escape_str bindE_def reserved_class_def)

lemma format_parts:
  assumes "formatCoinInfo p coin i = Inr out"
  shows "\<exists>icon text title price change marketCap volume holders age progress migrated.
       priceChangeParts p coin = Inr (icon, text) \<and> changeLine p icon text = Inr change
     \<and> titleLine p coin i = Inr title \<and> priceLine p coin = Inr price
     \<and> marketCapLine p coin = Inr marketCap \<and> volumeLine p coin = Inr volume
     \<and> holdersLine p coin = Inr holders \<and> ageLine p coin = Inr age
     \<and> progressLine p coin = Inr progress \<and> migratedLine p coin = Inr migrated
     \<and> out = title @ price @ change @ marketCap @ volume @ holders @ age @ progress @ migrated @ nl"
  using assms unfolding formatCoinInfo_def bindE_def
  by (auto split: sum.splits prod.splits)

lemma change_line_nonempty: "changeLine p icon text = Inr change \<Longrightarrow> change \<noteq> []"
  by (auto simp add: changeLine_def bindE_def split: sum.splits)

lemma delete_zero_same:
  assumes "map_of kvs k = Some (JNum (Finite 0))"
  shows "formatCoinInfo p (Some (JObj (AList.delete k kvs))) i = formatCoinInfo p (Some (JObj kvs)) i"
proof -
  have m: "\<And>f. map_of (AList.delete k kvs) f = (if f = k then None else map_of kvs f)"
    by (simp add: AList.delete_conv)
  have "priceChangeParts p (Some (JObj (AList.delete k kvs))) = priceChangeParts p (Some (JObj kvs))"
    using assms by (simp add: priceChangeParts_def bindE_def m)
  moreover have "titleLine p (Some (JObj (AList.delete k kvs))) i = titleLine p (Some (JObj kvs)) i"
    using assms by (simp add: titleLine_def bindE_def m or_else_def)
  moreover have "priceLine p (Some (JObj (AList.delete k kvs))) = priceLine p (Some (JObj kvs))"
    using assms by (simp add: priceLine_def bindE_def m)
  moreover have "marketCapLine p (Some (JObj (AList.delete k kvs))) = marketCapLine p (Some (JObj kvs))"
    using assms by (simp add: marketCapLine_def bindE_def m)
  moreover have "volumeLine p (Some (JObj (AList.delete k kvs))) = volumeLine p (Some (JObj kvs))"
    using assms by (simp add: volumeLine_def bindE_def m)
  moreover have "holdersLine p (Some (JObj (AList.delete k kvs))) = holdersLine p (Some (JObj kvs))"
    using assms by (simp add: holdersLine_def bindE_def m)
  moreover have "ageLine p (Some (JObj (AList.delete k kvs))) = ageLine p (Some (JObj kvs))"
    using assms by (simp add: ageLine_def bindE_def m)
  moreover have "progressLine p (Some (JObj (AList.delete k kvs))) = progressLine p (Some (JObj kvs))"
    using assms by (simp add: progressLine_def bindE_def m)
  moreover have "migratedLine p (Some (JObj (AList.delete k kvs))) = migratedLine p (Some (JObj kvs))"
    using assms by (simp add: migratedLine_def bindE_def m)
  ultimately show ?thesis
    by (simp add: formatCoinInfo_def)
qed

text \<open>
  C5, as the code has it. The text of a listing is its title line, the lines of price, 24h
  change, market cap, volume, holders, age, progress and migration time in this order, and
  an empty line. Each of the seven lines other than the 24h change is empty when its field
  is absent or the number 0, so a record with \<^verbatim>\<open>progress: 0\<close> has no progress line, and
  deleting a field whose value is 0 leaves the text unchanged. The 24h change line is never
  omitted: for an absent or zero \<^verbatim>\<open>change24h\<close> it shows 0.00 after the green circle.
\<close>

theorem formatCoinInfo_optional_fields:
  assumes "coin = Some (JObj kvs)" and "formatCoinInfo p coin i = Inr out"
  shows "\<exists>title price change marketCap volume holders age progress migrated.
       out = title @ price @ change @ marketCap @ volume @ holders @ age @ progress @ migrated @ nl
     \<and> titleLine p coin i = Inr title
     \<and> priceLine p coin = Inr price \<and> (absent_or_zero kvs ''price'' \<longrightarrow> price = [])
     \<and> marketCapLine p coin = Inr marketCap \<and> (absent_or_zero kvs ''marketCap'' \<longrightarrow> marketCap = [])
     \<and> volumeLine p coin = Inr volume \<and> (absent_or_zero kvs ''volume24h'' \<longrightarrow> volume = [])
     \<and> holdersLine p coin = Inr holders \<and> (absent_or_zero kvs ''holders'' \<longrightarrow> holders = [])
     \<and> ageLine p coin = Inr age \<and> (absent_or_zero kvs ''age'' \<longrightarrow> age = [])
     \<and> progressLine p coin = Inr progress \<and> (absent_or_zero kvs ''progress'' \<longrightarrow> progress = [])
     \<and> migratedLine p coin = Inr migrated \<and> (absent_or_zero kvs ''migrationTime'' \<longrightarrow> migrated = [])
     \<and> (\<exists>icon text. priceChangeParts p coin = Inr (icon, text) \<and> changeLine p icon text = Inr change)
     \<and> change \<noteq> []
     \<and> (absent_or_zero kvs ''change24h'' \<longrightarrow>
          change = green_circle @ '' 24h: 0'' @ bs @ ''.00'' @ bs @ ''%'' @ nl)
     \<and> (\<forall>k. map_of kvs k = Some (JNum (Finite 0)) \<longrightarrow>
          formatCoinInfo p (Some (JObj (AList.delete k kvs))) i = Inr out)"
proof -
  from format_parts [OF assms(2)] obtain icon shown title price change marketCap volume holders
      age progress migrated where parts:
    "priceChangeParts p coin = Inr (icon, shown)" "changeLine p icon shown = Inr change"
    "titleLine p coin i = Inr title" "priceLine p coin = Inr price"
    "marketCapLine p coin = Inr marketCap" "volumeLine p coin = Inr volume"
    "holdersLine p coin = Inr holders" "ageLine p coin = Inr age"
    "progressLine p coin = Inr progress" "migratedLine p coin = Inr migrated"
    "out = title @ price @ change @ marketCap @ volume @ holders @ age @ progress @ migrated @ nl"
    by blast
  have 1: "absent_or_zero kvs ''price'' \<longrightarrow> price = []"
    using optional_lines_empty(1) [of kvs "''price''" p] parts(4) assms(1)
    by (auto dest: absent_or_zero_falsy)
  have 2: "absent_or_zero kvs ''marketCap'' \<longrightarrow> marketCap = []"
    using optional_lines_empty(2) [of kvs "''marketCap''" p] parts(5) assms(1)
    by (auto dest: absent_or_zero_falsy)
  have 3: "absent_or_zero kvs ''volume24h'' \<longrightarrow> volume = []"
    using optional_lines_empty(3) [of kvs "''volume24h''" p] parts(6) assms(1)
    by (auto dest: absent_or_zero_falsy)
  have 4: "absent_or_zero kvs ''holders'' \<longrightarrow> holders = []"
    using optional_lines_empty(4) [of kvs "''holders''" p] parts(7) assms(1)
    by (auto dest: absent_or_zero_falsy)
  have 5: "absent_or_zero kvs ''age'' \<longrightarrow> age = []"
    using optional_lines_empty(5) [of kvs "''age''" p] parts(8) assms(1)
    by (auto dest: absent_or_zero_falsy)
  have 6: "absent_or_zero kvs ''progress'' \<longrightarrow> progress = []"
    using optional_lines_empty(6) [of kvs "''progress''" p] parts(9) assms(1)
    by (auto dest: absent_or_zero_falsy)
  have 7: "absent_or_zero kvs ''migrationTime'' \<longrightarrow> migrated = []"
    using optional_lines_empty(7) [of kvs "''migrationTime''" p] parts(10) assms(1)
    by (auto dest: absent_or_zero_falsy)
  have 8: "absent_or_zero kvs ''change24h'' \<longrightarrow>
          change = green_circle @ '' 24h: 0'' @ bs @ ''.00'' @ bs @ ''%'' @ nl"
  proof
    assume "absent_or_zero kvs ''change24h''"
    then have "priceChangeParts p coin = Inr (green_circle, ''0.00'')"
      using change_default [of kvs p] assms(1) by (auto dest: absent_or_zero_falsy)
    with parts(1) have "icon = green_circle" "shown = ''0.00''" by simp_all
    with parts(2) change_default_line [of p]
    show "change = green_circle @ '' 24h: 0'' @ bs @ ''.00'' @ bs @ ''%'' @ nl" by simp
  qed
  have 9: "\<forall>k. map_of kvs k = Some (JNum (Finite 0)) \<longrightarrow>
          formatCoinInfo p (Some (JObj (AList.delete k kvs))) i = Inr out"
    using delete_zero_same [of kvs _ p i] assms by simp
  have 10: "change \<noteq> []" using change_line_nonempty [OF parts(2)] .
  from parts 1 2 3 4 5 6 7 8 9 10 show ?thesis by blast
qed

text \<open>
  An instance: a listing with \<^verbatim>\<open>progress: 0\<close>.
\<close>

theorem formatCoinInfo_optional_fields_witness:
  "progressLine sample_prims
     (Some (JObj [(''name'', JStr ''MoonShot Token''), (''symbol'', JStr ''MOON''),
                  (''price'', num 3), (''progress'', num 0)])) = Inr []
   \<and> formatCoinInfo sample_prims
        (Some (JObj (AList.delete ''progress''
           [(''name'', JStr ''MoonShot Token''), (''symbol'', JStr ''MOON''),
            (''price'', num 3), (''progress'', num 0)]))) 1
      = Inr (''1'' @ bs @ ''. MoonShot Token '' @ bs @ ''(MOON'' @ bs @ '')'' @ nl
             @ money_bag @ '' Price: $1'' @ nl
             @ green_circle @ '' 24h: 0'' @ bs @ ''.00'' @ bs @ ''%'' @ nl @ nl)"
proof -
  define kvs where "kvs = [(''name'', JStr ''MoonShot Token''), (''symbol'', JStr ''MOON''),
               (''price'', num 3), (''progress'', num 0)]"
  define out where "out = ''1'' @ bs @ ''. MoonShot Token '' @ bs @ ''(MOON'' @ bs @ '')'' @ nl
             @ money_bag @ '' Price: $1'' @ nl
             @ green_circle @ '' 24h: 0'' @ bs @ ''.00'' @ bs @ ''%'' @ nl @ nl"
  have ev: "formatCoinInfo sample_prims (Some (JObj kvs)) 1 = Inr out"
    unfolding kvs_def out_def by code_simp
  have z: "absent_or_zero kvs ''progress''"
    by (simp add: absent_or_zero_def num_def kvs_def)
  have m: "map_of kvs ''progress'' = Some (JNum (Finite 0))"
    by (simp add: num_def kvs_def)
  from formatCoinInfo_optional_fields [OF refl ev] obtain progress where
    p: "progressLine sample_prims (Some (JObj kvs)) = Inr progress"
      "absent_or_zero kvs ''progress'' \<longrightarrow> progress = []"
    and del: "\<forall>k. map_of kvs k = Some (JNum (Finite 0)) \<longrightarrow>
          formatCoinInfo sample_prims (Some (JObj (AList.delete k kvs))) 1 = Inr out"
    by blast
  from p z have a: "progressLine sample_prims (Some (JObj kvs)) = Inr []" by blast
  from del m have b: "formatCoinInfo sample_prims (Some (JObj (AList.delete ''progress'' kvs))) 1 = Inr out"
    by blast
  from a b show ?thesis unfolding kvs_def out_def by (rule conjI)
qed

text \<open>
  C5 as stated fails for the 24h change: a record without \<^verbatim>\<open>change24h\<close> is rendered
  with a 24h line.
\<close>

theorem change_line_always_rendered:
  "formatCoinInfo sample_prims (Some (JObj [(''name'', JStr ''A''), (''symbol'', JStr ''B'')])) 1
   = Inr (''1'' @ bs @ ''. A '' @ bs @ ''(B'' @ bs @ '')'' @ nl
          @ green_circle @ '' 24h: 0'' @ bs @ ''.00'' @ bs @ ''%'' @ nl @ nl)"
  by code_simp

section \<open>The sends of a dispatch\<close>

lemma attempts_send: "attempts (Suc n) (await_io (sendMessage w c t e) sends) sends"
  by (auto simp add: attempts_def await_send accepted_def split: sum.splits)

lemma attempts_simple:
  "attempts 2
     (try_catch (bind_io (lift m) (\<lambda>x. await_io (sendMessage w c x e)))
        (\<lambda>error. await_io (sendMessage w c a e)) sends) sends"
  by (cases m)
     (auto simp add: attempts_def try_catch_def bind_io_def lift_def await_send accepted_def
        split: sum.splits)

lemma attempts_global: "attempts 2 (handleGlobalCommand w p c e sends) sends"
  unfolding handleGlobalCommand_def by (rule attempts_simple)

lemma attempts_top10: "attempts 2 (handleTop10Command w p c e sends) sends"
  unfolding handleTop10Command_def by (rule attempts_simple)

lemma attempts_trending: "attempts 2 (handleTrendingCommand w p c e sends) sends"
  unfolding handleTrendingCommand_def by (rule attempts_simple)

lemma attempts_price: "attempts 2 (handlePriceCommand w p c (Some (JStr q)) e sends) sends"
  by (auto simp add: handlePriceCommand_def attempts_def try_catch_def bind_io_def lift_def
        await_send accepted_def escape_str split: sum.splits prod.splits if_splits)

lemma attempts_catch:
  assumes "attempts n (h sends) base"
  shows "attempts (Suc n) (try_catch h (\<lambda>error. await_io (sendMessage w c a e)) sends) base"
proof (cases "h sends")
  case (Pair r out)
  from assms Pair obtain new where new: "out = base @ new" "new \<noteq> []" "length new \<le> n"
    "list_all (\<lambda>s. \<not> accepted s) (butlast new)" "isl r \<longleftrightarrow> \<not> accepted (last new)"
    by (auto simp add: attempts_def)
  show ?thesis
  proof (cases r)
    case (Inr u)
    with Pair new show ?thesis
      by (auto simp add: attempts_def try_catch_def)
  next
    case (Inl err)
    let ?s = "Send c a (sendMessage_try w (length out) c a e)"
    from Inl new have rej: "\<not> accepted (last new)" by simp
    have all: "list_all (\<lambda>s. \<not> accepted s) new"
    proof -
      have "new = butlast new @ [last new]" using new(2) by simp
      then have "list_all (\<lambda>s. \<not> accepted s) new
          = list_all (\<lambda>s. \<not> accepted s) (butlast new @ [last new])"
        by simp
      then show ?thesis using new(4) rej by simp
    qed
    have res: "try_catch h (\<lambda>error. await_io (sendMessage w c a e)) sends =
        (case sendMessage_try w (length out) c a e of Inl err \<Rightarrow> Inl err | Inr d \<Rightarrow> Inr (),
         base @ (new @ [?s]))"
      using Pair Inl new(1) by (simp add: try_catch_def await_send)
    show ?thesis
      unfolding attempts_def res
      apply (rule exI [of _ "new @ [?s]"])
      using new(3) all by (auto simp add: accepted_def split: sum.splits)
  qed
qed

lemma attempts_pulse:
  "\<exists>r1. attempts 2 (handlePulseCommand w p c e sends) (sends @ [Send c fetching_text r1])"
  apply (rule exI [of _ "sendMessage_try w (length sends) c fetching_text e"])
  apply (cases "sendMessage_try w (length sends) c fetching_text e")
   apply (auto simp add: handlePulseCommand_def attempts_def try_catch_def bind_io_def lift_def
      await_send sendMessage_eq accepted_def split: sum.splits prod.splits)
  done

lemma catch_retry:
  assumes "attempts n (h sends) base"
    and "try_catch h (\<lambda>error. await_io (sendMessage w c a e)) sends = (r, out)"
  shows "\<exists>new. out = base @ new \<and> new \<noteq> [] \<and> (\<not> accepted (hd new) \<longrightarrow> 2 \<le> length new)"
proof (cases "h sends")
  case (Pair r0 out0)
  from assms(1) Pair obtain new0 where new0: "out0 = base @ new0" "new0 \<noteq> []"
    "list_all (\<lambda>s. \<not> accepted s) (butlast new0)" "isl r0 \<longleftrightarrow> \<not> accepted (last new0)"
    by (auto simp add: attempts_def)
  show ?thesis
  proof (cases r0)
    case (Inr u)
    with Pair assms(2) have out: "out = out0" by (simp add: try_catch_def)
    from Inr new0(4) have acc: "accepted (last new0)" by simp
    have "\<not> accepted (hd new0) \<longrightarrow> 2 \<le> length new0"
    proof
      assume rej: "\<not> accepted (hd new0)"
      show "2 \<le> length new0"
      proof (cases new0)
        case Nil
        with new0(2) show ?thesis by simp
      next
        case (Cons x xs)
        with rej acc have "xs \<noteq> []" by auto
        with Cons show ?thesis by (cases xs) auto
      qed
    qed
    with out new0 show ?thesis by blast
  next
    case (Inl err)
    with Pair assms(2) new0(1)
    have "out = base @ (new0 @ [Send c a (sendMessage_try w (length out0) c a e)])"
      by (simp add: try_catch_def await_send)
    moreover have "2 \<le> length (new0 @ [Send c a (sendMessage_try w (length out0) c a e)])"
      using new0(2) by (cases new0) auto
    ultimately show ?thesis by blast
  qed
qed

lemma split_on_first:
  "split_on sep s = takeWhile (\<lambda>x. x \<noteq> sep) s #
     (case dropWhile (\<lambda>x. x \<noteq> sep) s of [] \<Rightarrow> [] | _ # rest \<Rightarrow> split_on sep rest)"
  by (induction s) (auto split: list.splits)

lemma price_argument:
  assumes "startsWith t ''/price ''"
  shows "element (split_on CHR '' '' t) 1 = Some (JStr (takeWhile (\<lambda>x. x \<noteq> CHR '' '') (drop 7 t)))"
proof -
  have "length ''/price '' = 7" by simp
  then have "take 7 t = ''/price ''" using assms unfolding startsWith_def by metis
  then have "t = ''/price '' @ drop 7 t" by (metis append_take_drop_id)
  then obtain r where t: "t = ''/price '' @ r" and r: "r = drop 7 t" by blast
  have "split_on CHR '' '' (''/price '' @ r) = ''/price'' # split_on CHR '' '' r"
    by (simp split: list.splits)
  moreover have "split_on CHR '' '' r = takeWhile (\<lambda>x. x \<noteq> CHR '' '') r #
     (case dropWhile (\<lambda>x. x \<noteq> CHR '' '') r of [] \<Rightarrow> [] | _ # rest \<Rightarrow> split_on CHR '' '' rest)"
    by (rule split_on_first)
  ultimately have "element (split_on CHR '' '' (''/price '' @ r)) 1 = Some (JStr (takeWhile (\<lambda>x. x \<noteq> CHR '' '') r))"
    by (simp add: element_def)
  then show ?thesis using t r by metis
qed

lemma not_price_word:
  "\<not> startsWith ''/start'' ''/price ''" "\<not> startsWith ''/help'' ''/price ''"
  "\<not> startsWith ''/top10'' ''/price ''" "\<not> startsWith ''/trending'' ''/price ''"
  "\<not> startsWith ''/pulse'' ''/price ''" "\<not> startsWith ''/global'' ''/price ''"
  by (simp_all add: startsWith_def)

lemma dispatch_unrecognized: "\<not> recognized t \<Longrightarrow> dispatch w p c t e sends = (Inr (), sends)"
  by (simp add: recognized_def dispatch_def lift_def)

lemma dispatch_price:
  "startsWith t ''/price '' \<Longrightarrow>
     dispatch w p c t e =
       handlePriceCommand w p c (Some (JStr (takeWhile (\<lambda>x. x \<noteq> CHR '' '') (drop 7 t)))) e"
  using not_price_word price_argument [of t] by (auto simp add: dispatch_def)

lemma dispatch_attempts:
  assumes "recognized t" "t \<noteq> ''/pulse''"
  shows "attempts 2 (dispatch w p c t e sends) sends"
proof (cases "startsWith t ''/price ''")
  case True
  then show ?thesis by (simp add: dispatch_price attempts_price)
next
  case False
  with assms have "t = ''/start'' \<or> t = ''/help'' \<or> t = ''/top10'' \<or> t = ''/trending'' \<or> t = ''/global''"
    by (auto simp add: recognized_def)
  then show ?thesis
    using attempts_send [of 1 w c help_text e sends] attempts_top10 [of w p c e sends]
      attempts_trending [of w p c e sends] attempts_global [of w p c e sends]
    by (auto simp add: dispatch_def numeral_2_eq_2)
qed

lemma dispatch_pulse: "dispatch w p c ''/pulse'' e = handlePulseCommand w p c e"
  by (simp add: dispatch_def)

lemma handle_read:
  assumes "read_update p update = Inr (Some (c, t))"
  shows "handleTelegramUpdate w p update e sends =
     try_catch (dispatch w p c t e) (\<lambda>error. await_io (sendMessage w c apology_generic e)) sends"
  using assms by (simp add: handleTelegramUpdate_def bind_io_def lift_def)

lemma handle_dropped:
  assumes "read_update p update = Inr None"
  shows "handleTelegramUpdate w p update e sends = (Inr (), sends)"
  using assms by (simp add: handleTelegramUpdate_def bind_io_def lift_def)

lemma handle_failed:
  assumes "read_update p update = Inl err"
  shows "handleTelegramUpdate w p update e sends = (Inl err, sends)"
  using assms by (simp add: handleTelegramUpdate_def bind_io_def lift_def)

lemma handle_attempts:
  assumes "read_update p update = Inr (Some (c, t))" "recognized t" "t \<noteq> ''/pulse''"
  shows "attempts 3 (handleTelegramUpdate w p update e sends) sends"
proof -
  have "attempts 2 (dispatch w p c t e sends) sends"
    using assms(2,3) by (rule dispatch_attempts)
  then have "attempts (Suc 2) (try_catch (dispatch w p c t e)
      (\<lambda>error. await_io (sendMessage w c apology_generic e)) sends) sends"
    by (rule attempts_catch)
  then show ?thesis
    by (simp add: handle_read [OF assms(1)] numeral_3_eq_3)
qed

lemma handle_attempts_pulse:
  assumes "read_update p update = Inr (Some (c, ''/pulse''))"
  shows "\<exists>r1. attempts 3 (handleTelegramUpdate w p update e sends) (sends @ [Send c fetching_text r1])"
proof -
  obtain r1 where "attempts 2 (handlePulseCommand w p c e sends) (sends @ [Send c fetching_text r1])"
    using attempts_pulse by blast
  then have "attempts (Suc 2) (try_catch (handlePulseCommand w p c e)
      (\<lambda>error. await_io (sendMessage w c apology_generic e)) sends) (sends @ [Send c fetching_text r1])"
    by (rule attempts_catch)
  then show ?thesis
    by (auto simp add: handle_read [OF assms] dispatch_pulse numeral_3_eq_3)
qed

text \<open>What a run of attempts says about the number of sends.\<close>

lemma attempts_counts:
  assumes "attempts n (r, base @ new) base"
  shows "1 \<le> length new" "length new \<le> n" "length (filter accepted new) \<le> 1"
    "list_all accepted new \<longrightarrow> length new = 1"
    "list_all (\<lambda>s. \<not> accepted s) (butlast new)"
    "isl r \<longleftrightarrow> \<not> accepted (last new)"
proof -
  from assms have new: "new \<noteq> []" "length new \<le> n"
    "list_all (\<lambda>s. \<not> accepted s) (butlast new)" "isl r \<longleftrightarrow> \<not> accepted (last new)"
    by (auto simp add: attempts_def)
  show "1 \<le> length new" using new(1) by (cases new) auto
  show "length new \<le> n" by (rule new(2))
  show "list_all (\<lambda>s. \<not> accepted s) (butlast new)" by (rule new(3))
  show "isl r \<longleftrightarrow> \<not> accepted (last new)" by (rule new(4))
  have split: "new = butlast new @ [last new]" using new(1) by simp
  have none: "filter accepted (butlast new) = []"
    using new(3) by (simp add: list_all_iff filter_empty_conv)
  have "filter accepted new = filter accepted (butlast new) @ filter accepted [last new]"
    by (metis split filter_append)
  then show "length (filter accepted new) \<le> 1" using none by simp
  show "list_all accepted new \<longrightarrow> length new = 1"
  proof
    assume a: "list_all accepted new"
    have "list_all accepted (butlast new)"
      using a by (simp add: list_all_iff) (meson in_set_butlastD)
    with new(3) have "butlast new = []"
      by (cases "butlast new") auto
    with split show "length new = 1" by (metis length_Cons list.size(3) append_Nil One_nat_def)
  qed
qed

text \<open>
  C1, as the code has it. An update that is dropped or fails before the \<^verbatim>\<open>try\<close>, and a
  text that is no command, cause no send. A command other than /pulse causes one to three
  send calls, of which at most one is accepted, and exactly one when the platform accepts
  what it is sent. The /pulse command causes two to four send calls, the progress notice
  first, of which at most two are accepted, and exactly two when the platform accepts what
  it is sent.
\<close>

theorem dispatch_send_count:
  assumes "handleTelegramUpdate w p update e [] = (r, out)"
  shows "case read_update p update of
           Inr (Some (chatId, t)) \<Rightarrow>
             (if \<not> recognized t then out = []
              else if t = ''/pulse'' then
                2 \<le> length out \<and> length out \<le> 4 \<and> length (filter accepted out) \<le> 2
                \<and> (list_all accepted out \<longrightarrow> length out = 2)
              else
                1 \<le> length out \<and> length out \<le> 3 \<and> length (filter accepted out) \<le> 1
                \<and> (list_all accepted out \<longrightarrow> length out = 1))
         | _ \<Rightarrow> out = []"
proof (cases "read_update p update")
  case (Inl err)
  with assms show ?thesis by (simp add: handle_failed)
next
  case (Inr inbound)
  show ?thesis
  proof (cases inbound)
    case None
    with Inr assms show ?thesis by (simp add: handle_dropped)
  next
    case (Some ct)
    obtain c t where ct: "ct = (c, t)" by (cases ct)
    have rd: "read_update p update = Inr (Some (c, t))" using Inr Some ct by simp
    show ?thesis
    proof (cases "recognized t")
      case False
      then have "out = []"
        using assms by (simp add: handle_read [OF rd] try_catch_def dispatch_unrecognized)
      with rd False show ?thesis by simp
    next
      case True
      show ?thesis
      proof (cases "t = ''/pulse''")
        case False
        have "attempts 3 (r, [] @ out) []"
          using handle_attempts [OF rd True False, where w = w and e = e and sends = "[]"] assms by simp
        from attempts_counts [OF this] rd True False show ?thesis by simp
      next
        case pulse: True
        obtain r1 where "attempts 3 (handleTelegramUpdate w p update e []) ([] @ [Send c fetching_text r1])"
          using handle_attempts_pulse [where update = update and c = c and w = w and p = p and e = e and sends = "[]"] rd pulse by auto
        then have a: "attempts 3 (r, out) [Send c fetching_text r1]"
          using assms by simp
        then obtain new where new: "out = [Send c fetching_text r1] @ new"
          by (auto simp add: attempts_def)
        with a have "attempts 3 (r, [Send c fetching_text r1] @ new) [Send c fetching_text r1]"
          by simp
        from attempts_counts [OF this] new rd True pulse show ?thesis by auto
      qed
    qed
  qed
qed

text \<open>
  An instance: /PULSE with every provider down and every send accepted.
\<close>

theorem dispatch_send_count_witness:
  "length (snd (handleTelegramUpdate providers_down sample_prims
      (text_update (Some (JObj [(''id'', num 7)])) ''/PULSE'') sample_env [])) = 2"
proof -
  let ?u = "text_update (Some (JObj [(''id'', num 7)])) ''/PULSE''"
  let ?res = "handleTelegramUpdate providers_down sample_prims ?u sample_env []"
  have rd: "read_update sample_prims ?u = Inr (Some (Some (num 7), ''/pulse''))"
    by code_simp
  have rec: "recognized ''/pulse''"
    by code_simp
  have acc: "list_all accepted (snd ?res)"
    by code_simp
  have "?res = (fst ?res, snd ?res)" by simp
  from dispatch_send_count [OF this] rd rec acc show ?thesis by simp
qed

text \<open>
  C1 as stated fails for /pulse: the progress notice and the pulse message are two
  send calls, both accepted here.
\<close>

theorem pulse_sends_twice:
  "map accepted (snd (handleTelegramUpdate providers_down sample_prims
      (text_update (Some (JObj [(''id'', num 7)])) ''/pulse'') sample_env [])) = [True, True]
   \<and> send_text (hd (snd (handleTelegramUpdate providers_down sample_prims
      (text_update (Some (JObj [(''id'', num 7)])) ''/pulse'') sample_env []))) = fetching_text"
  by code_simp

section \<open>Command matching\<close>

lemma char_of_code: "(of_char b :: nat) = n \<Longrightarrow> char_of n = b"
  by (metis char_of_char)

lemma code_of_lowered:
  assumes "(n :: nat) \<le> 90"
  shows "(of_char (char_of (n + 32) :: char) :: nat) = n + 32"
  using assms by (simp add: of_char_of)

lemma lower_char_same: "same_letter a b \<Longrightarrow> lower_char a = lower_char b"
  by (auto simp add: same_letter_def is_upper_def lower_char_def Let_def
      intro: char_of_code char_of_code [symmetric])

lemma same_letter_lower: "same_letter c (lower_char c)"
  by (simp add: same_letter_def is_upper_def lower_char_def Let_def code_of_lowered)

lemma same_letter_ascii:
  "same_letter a b \<Longrightarrow> (of_char b :: nat) < 128 \<Longrightarrow> (of_char a :: nat) < 128"
  by (auto simp add: same_letter_def is_upper_def)

lemma eq_ignore_case_lower: "eq_ignore_case s t \<Longrightarrow> map lower_char s = map lower_char t"
  unfolding eq_ignore_case_def
  by (induction rule: list_all2_induct) (simp_all add: lower_char_same)

lemma eq_ignore_case_self: "eq_ignore_case s (map lower_char s)"
  unfolding eq_ignore_case_def
  by (induction s) (simp_all add: same_letter_lower)

lemma eq_ignore_case_ascii: "eq_ignore_case s t \<Longrightarrow> is_ascii t \<Longrightarrow> is_ascii s"
  unfolding eq_ignore_case_def is_ascii_def
  by (induction rule: list_all2_induct) (auto dest: same_letter_ascii)

lemma lower_char_space: "lower_char x = CHR '' '' \<longleftrightarrow> x = CHR '' ''"
proof (cases "is_upper x")
  case True
  then have "(of_char (lower_char x) :: nat) = of_char x + 32"
    by (simp add: lower_char_def Let_def is_upper_def code_of_lowered)
  then have "lower_char x \<noteq> CHR '' ''"
    using True by (auto simp add: is_upper_def)
  moreover have "x \<noteq> CHR '' ''"
    using True by (auto simp add: is_upper_def)
  ultimately show ?thesis by simp
next
  case False
  then show ?thesis by (auto simp add: lower_char_def Let_def is_upper_def)
qed

lemma lower_takeWhile:
  "takeWhile (\<lambda>x. x \<noteq> CHR '' '') (map lower_char xs)
     = map lower_char (takeWhile (\<lambda>x. x \<noteq> CHR '' '') xs)"
  by (induction xs) (simp_all add: lower_char_space)

lemma is_ascii_word:
  "is_ascii ''/start''" "is_ascii ''/help''" "is_ascii ''/top10''" "is_ascii ''/trending''"
  "is_ascii ''/pulse''" "is_ascii ''/global''"
  by (simp_all add: is_ascii_def)

lemma lower_word:
  "map lower_char ''/start'' = ''/start''" "map lower_char ''/help'' = ''/help''"
  "map lower_char ''/top10'' = ''/top10''" "map lower_char ''/trending'' = ''/trending''"
  "map lower_char ''/pulse'' = ''/pulse''" "map lower_char ''/global'' = ''/global''"
  "map lower_char ''/price '' = ''/price ''"
  by (simp_all add: lower_char_def)

lemma js_lower_ascii: "is_ascii s \<Longrightarrow> js_lower p s = map lower_char s"
  by (simp add: js_lower_def)

lemma js_lower_word:
  assumes "eq_ignore_case raw w" "is_ascii w" "map lower_char w = w"
  shows "js_lower p raw = w"
  using eq_ignore_case_ascii [OF assms(1,2)] eq_ignore_case_lower [OF assms(1)] assms(3)
  by (simp add: js_lower_ascii)

lemma js_lower_commands:
  "eq_ignore_case raw ''/start'' \<Longrightarrow> js_lower p raw = ''/start''"
  "eq_ignore_case raw ''/help'' \<Longrightarrow> js_lower p raw = ''/help''"
  "eq_ignore_case raw ''/top10'' \<Longrightarrow> js_lower p raw = ''/top10''"
  "eq_ignore_case raw ''/trending'' \<Longrightarrow> js_lower p raw = ''/trending''"
  "eq_ignore_case raw ''/pulse'' \<Longrightarrow> js_lower p raw = ''/pulse''"
  "eq_ignore_case raw ''/global'' \<Longrightarrow> js_lower p raw = ''/global''"
  by (erule js_lower_word [OF _ is_ascii_word(1) lower_word(1)],
      erule js_lower_word [OF _ is_ascii_word(2) lower_word(2)],
      erule js_lower_word [OF _ is_ascii_word(3) lower_word(3)],
      erule js_lower_word [OF _ is_ascii_word(4) lower_word(4)],
      erule js_lower_word [OF _ is_ascii_word(5) lower_word(5)],
      erule js_lower_word [OF _ is_ascii_word(6) lower_word(6)])

lemma lowered_price_prefix:
  assumes "eq_ignore_case (take 7 raw) ''/price ''"
  shows "startsWith (map lower_char raw) ''/price ''"
proof -
  have "map lower_char (take 7 raw) = ''/price ''"
    using eq_ignore_case_lower [OF assms] by (simp only: lower_word)
  then have "take 7 (map lower_char raw) = ''/price ''"
    by (simp only: take_map)
  moreover have "length ''/price '' = 7" by simp
  ultimately show ?thesis unfolding startsWith_def by metis
qed

lemma lowered_price_prefix_conv:
  assumes "startsWith (map lower_char raw) ''/price ''"
  shows "eq_ignore_case (take 7 raw) ''/price ''"
proof -
  have "length ''/price '' = 7" by simp
  then have "take 7 (map lower_char raw) = ''/price ''"
    using assms unfolding startsWith_def by metis
  then have "map lower_char (take 7 raw) = ''/price ''"
    by (simp only: take_map)
  then show ?thesis
    using eq_ignore_case_self [of "take 7 raw"] by simp
qed

lemma read_update_text:
  assumes "get_prop (Some update) ''message'' = Inr message"
    and "get_prop message ''text'' = Inr (Some (JStr raw))" and "raw \<noteq> []"
    and "get_prop message ''chat'' = Inr chat" and "get_prop chat ''id'' = Inr chatId"
  shows "read_update p update = Inr (Some (chatId, js_lower p raw))"
proof -
  have "truthy message"
    using assms(2) by (cases message rule: truthy.cases) (auto split: if_splits)
  then show ?thesis
    using assms by (simp add: read_update_def bindE_def toLowerCase_def)
qed

lemma dispatch_words:
  "dispatch w p c ''/start'' e = await_io (sendMessage w c help_text e)"
  "dispatch w p c ''/help'' e = await_io (sendMessage w c help_text e)"
  "dispatch w p c ''/top10'' e = handleTop10Command w p c e"
  "dispatch w p c ''/trending'' e = handleTrendingCommand w p c e"
  "dispatch w p c ''/pulse'' e = handlePulseCommand w p c e"
  "dispatch w p c ''/global'' e = handleGlobalCommand w p c e"
  by (simp_all add: dispatch_def)

text \<open>
  C6, as the code has it. The text is lower-cased and matched as it was received, without
  trimming. A text that reads /start, /help, /top10, /trending, /pulse or /global in any
  mix of upper and lower case selects that command's handler. An ASCII text whose first
  seven characters read \<^verbatim>\<open>/price\<close> and a space in any mix of case selects the price
  handler, with the lower-cased text between that space and the next space as its argument
  (empty when a second space follows at once, later tokens ignored). An ASCII text that
  reads none of these causes no send; so does /help followed by a space. For any text, the
  handler is chosen on the lower-cased text \<open>t\<close>: the price handler when \<open>t\<close> starts with
  \<^verbatim>\<open>/price\<close> and a space, nothing when \<open>t\<close> is no command; and the dispatch of an update
  is the dispatch on its lower-cased message text.
\<close>

theorem command_matching:
  "(eq_ignore_case raw ''/start'' \<or> eq_ignore_case raw ''/help'' \<longrightarrow>
      dispatch w p c (js_lower p raw) e = await_io (sendMessage w c help_text e))
   \<and> (eq_ignore_case raw ''/top10'' \<longrightarrow>
        dispatch w p c (js_lower p raw) e = handleTop10Command w p c e)
   \<and> (eq_ignore_case raw ''/trending'' \<longrightarrow>
        dispatch w p c (js_lower p raw) e = handleTrendingCommand w p c e)
   \<and> (eq_ignore_case raw ''/pulse'' \<longrightarrow>
        dispatch w p c (js_lower p raw) e = handlePulseCommand w p c e)
   \<and> (eq_ignore_case raw ''/global'' \<longrightarrow>
        dispatch w p c (js_lower p raw) e = handleGlobalCommand w p c e)
   \<and> (is_ascii raw \<and> eq_ignore_case (take 7 raw) ''/price '' \<longrightarrow>
        dispatch w p c (js_lower p raw) e =
          handlePriceCommand w p c
            (Some (JStr (map lower_char (takeWhile (\<lambda>x. x \<noteq> CHR '' '') (drop 7 raw))))) e)
   \<and> (is_ascii raw \<and> \<not> eq_ignore_case raw ''/start'' \<and> \<not> eq_ignore_case raw ''/help''
        \<and> \<not> eq_ignore_case raw ''/top10'' \<and> \<not> eq_ignore_case raw ''/trending''
        \<and> \<not> eq_ignore_case raw ''/pulse'' \<and> \<not> eq_ignore_case raw ''/global''
        \<and> \<not> eq_ignore_case (take 7 raw) ''/price '' \<longrightarrow>
        dispatch w p c (js_lower p raw) e sends = (Inr (), sends))
   \<and> (startsWith t ''/price '' \<longrightarrow>
        dispatch w p c t e =
          handlePriceCommand w p c
            (Some (JStr (takeWhile (\<lambda>x. x \<noteq> CHR '' '') (drop 7 t)))) e)
   \<and> (\<not> recognized t \<longrightarrow> dispatch w p c t e sends = (Inr (), sends))
   \<and> (get_prop (Some update) ''message'' = Inr message
        \<and> get_prop message ''text'' = Inr (Some (JStr raw)) \<and> raw \<noteq> []
        \<and> get_prop message ''chat'' = Inr chat \<and> get_prop chat ''id'' = Inr chatId \<longrightarrow>
        handleTelegramUpdate w p update e =
          try_catch (dispatch w p chatId (js_lower p raw) e)
            (\<lambda>error. await_io (sendMessage w chatId apology_generic e)))"
proof -
  have w1: "eq_ignore_case raw ''/start'' \<or> eq_ignore_case raw ''/help'' \<longrightarrow>
      dispatch w p c (js_lower p raw) e = await_io (sendMessage w c help_text e)"
    by (auto simp add: js_lower_commands dispatch_words)
  have w2: "eq_ignore_case raw ''/top10'' \<longrightarrow>
        dispatch w p c (js_lower p raw) e = handleTop10Command w p c e"
    by (auto simp add: js_lower_commands dispatch_words)
  have w3: "eq_ignore_case raw ''/trending'' \<longrightarrow>
        dispatch w p c (js_lower p raw) e = handleTrendingCommand w p c e"
    by (auto simp add: js_lower_commands dispatch_words)
  have w4: "eq_ignore_case raw ''/pulse'' \<longrightarrow>
        dispatch w p c (js_lower p raw) e = handlePulseCommand w p c e"
    by (auto simp add: js_lower_commands dispatch_words)
  have w5: "eq_ignore_case raw ''/global'' \<longrightarrow>
        dispatch w p c (js_lower p raw) e = handleGlobalCommand w p c e"
    by (auto simp add: js_lower_commands dispatch_words)
  have pr: "is_ascii raw \<and> eq_ignore_case (take 7 raw) ''/price '' \<longrightarrow>
        dispatch w p c (js_lower p raw) e =
          handlePriceCommand w p c
            (Some (JStr (map lower_char (takeWhile (\<lambda>x. x \<noteq> CHR '' '') (drop 7 raw))))) e"
  proof
    assume a: "is_ascii raw \<and> eq_ignore_case (take 7 raw) ''/price ''"
    then have l: "js_lower p raw = map lower_char raw" by (simp add: js_lower_ascii)
    have s: "startsWith (map lower_char raw) ''/price ''"
      using a by (simp add: lowered_price_prefix)
    have "takeWhile (\<lambda>x. x \<noteq> CHR '' '') (drop 7 (map lower_char raw))
        = map lower_char (takeWhile (\<lambda>x. x \<noteq> CHR '' '') (drop 7 raw))"
      by (simp only: drop_map lower_takeWhile)
    then show "dispatch w p c (js_lower p raw) e =
          handlePriceCommand w p c
            (Some (JStr (map lower_char (takeWhile (\<lambda>x. x \<noteq> CHR '' '') (drop 7 raw))))) e"
      using dispatch_price [OF s, of w p c e] l by simp
  qed
  have un: "is_ascii raw \<and> \<not> eq_ignore_case raw ''/start'' \<and> \<not> eq_ignore_case raw ''/help''
        \<and> \<not> eq_ignore_case raw ''/top10'' \<and> \<not> eq_ignore_case raw ''/trending''
        \<and> \<not> eq_ignore_case raw ''/pulse'' \<and> \<not> eq_ignore_case raw ''/global''
        \<and> \<not> eq_ignore_case (take 7 raw) ''/price '' \<longrightarrow>
        dispatch w p c (js_lower p raw) e sends = (Inr (), sends)"
  proof
    assume a: "is_ascii raw \<and> \<not> eq_ignore_case raw ''/start'' \<and> \<not> eq_ignore_case raw ''/help''
        \<and> \<not> eq_ignore_case raw ''/top10'' \<and> \<not> eq_ignore_case raw ''/trending''
        \<and> \<not> eq_ignore_case raw ''/pulse'' \<and> \<not> eq_ignore_case raw ''/global''
        \<and> \<not> eq_ignore_case (take 7 raw) ''/price ''"
    then have l: "js_lower p raw = map lower_char raw" by (simp add: js_lower_ascii)
    have "\<not> recognized (map lower_char raw)"
    proof
      assume "recognized (map lower_char raw)"
      then consider v where "map lower_char raw = v"
          "v = ''/start'' \<or> v = ''/help'' \<or> v = ''/top10'' \<or> v = ''/trending''
            \<or> v = ''/pulse'' \<or> v = ''/global''"
        | "startsWith (map lower_char raw) ''/price ''"
        by (auto simp add: recognized_def)
      then show False
      proof cases
        case 1
        from eq_ignore_case_self [of raw] 1(1) have "eq_ignore_case raw v" by simp
        with 1(2) a show False by blast
      next
        case 2
        with lowered_price_prefix_conv a show False by blast
      qed
    qed
    then show "dispatch w p c (js_lower p raw) e sends = (Inr (), sends)"
      using l by (simp add: dispatch_unrecognized)
  qed
  have price: "startsWith t ''/price '' \<longrightarrow>
        dispatch w p c t e =
          handlePriceCommand w p c
            (Some (JStr (takeWhile (\<lambda>x. x \<noteq> CHR '' '') (drop 7 t)))) e"
    using dispatch_price [of t w p c e] by (rule impI)
  have unmatched: "\<not> recognized t \<longrightarrow> dispatch w p c t e sends = (Inr (), sends)"
    using dispatch_unrecognized [of t w p c e sends] by (rule impI)
  have upd: "get_prop (Some update) ''message'' = Inr message
        \<and> get_prop message ''text'' = Inr (Some (JStr raw)) \<and> raw \<noteq> []
        \<and> get_prop message ''chat'' = Inr chat \<and> get_prop chat ''id'' = Inr chatId \<longrightarrow>
        handleTelegramUpdate w p update e =
          try_catch (dispatch w p chatId (js_lower p raw) e)
            (\<lambda>error. await_io (sendMessage w chatId apology_generic e))"
  proof
    assume a: "get_prop (Some update) ''message'' = Inr message
        \<and> get_prop message ''text'' = Inr (Some (JStr raw)) \<and> raw \<noteq> []
        \<and> get_prop message ''chat'' = Inr chat \<and> get_prop chat ''id'' = Inr chatId"
    have "read_update p update = Inr (Some (chatId, js_lower p raw))"
      by (rule read_update_text [where message = message and chat = chat]) (simp_all add: a)
    then show "handleTelegramUpdate w p update e =
          try_catch (dispatch w p chatId (js_lower p raw) e)
            (\<lambda>error. await_io (sendMessage w chatId apology_generic e))"
      by (intro ext) (rule handle_read)
  qed
  from w1 w2 w3 w4 w5 pr un price unmatched upd show ?thesis by (intro conjI)
qed

text \<open>
  Instances with upper-case letters: a price command with a second token, a help command,
  and a text that is no command.
\<close>

theorem command_matching_witness:
  "handleTelegramUpdate providers_down sample_prims
       (text_update (Some (JObj [(''id'', num 7)])) ''/PrIcE BtC eth'') sample_env
     = try_catch
         (handlePriceCommand providers_down sample_prims (Some (num 7)) (Some (JStr ''btc''))
            sample_env)
         (\<lambda>error. await_io (sendMessage providers_down (Some (num 7)) apology_generic sample_env))
   \<and> dispatch providers_down sample_prims (Some (num 7)) (js_lower sample_prims ''/HeLP'')
        sample_env
     = await_io (sendMessage providers_down (Some (num 7)) help_text sample_env)
   \<and> dispatch providers_down sample_prims (Some (num 7)) (js_lower sample_prims ''/Prices'')
        sample_env [] = (Inr (), [])"
proof -
  let ?u = "text_update (Some (JObj [(''id'', num 7)])) ''/PrIcE BtC eth''"
  let ?m = "Some (JObj [(''chat'', JObj [(''id'', num 7)]), (''text'', JStr ''/PrIcE BtC eth'')])"
  have h: "get_prop (Some ?u) ''message'' = Inr ?m
        \<and> get_prop ?m ''text'' = Inr (Some (JStr ''/PrIcE BtC eth'')) \<and> ''/PrIcE BtC eth'' \<noteq> []
        \<and> get_prop ?m ''chat'' = Inr (Some (JObj [(''id'', num 7)]))
        \<and> get_prop (Some (JObj [(''id'', num 7)])) ''id'' = Inr (Some (num 7))"
    by (simp add: text_update_def)
  have a: "is_ascii ''/PrIcE BtC eth'' \<and> eq_ignore_case (take 7 ''/PrIcE BtC eth'') ''/price ''"
    by code_simp
  have b: "map lower_char (takeWhile (\<lambda>x. x \<noteq> CHR '' '') (drop 7 ''/PrIcE BtC eth'')) = ''btc''"
    by code_simp
  have d: "dispatch providers_down sample_prims (Some (num 7))
        (js_lower sample_prims ''/PrIcE BtC eth'') sample_env
      = handlePriceCommand providers_down sample_prims (Some (num 7))
          (Some (JStr (map lower_char (takeWhile (\<lambda>x. x \<noteq> CHR '' '') (drop 7 ''/PrIcE BtC eth'')))))
          sample_env"
    using command_matching [where raw = "''/PrIcE BtC eth''" and w = providers_down
      and p = sample_prims and c = "Some (num 7)" and e = sample_env, THEN conjunct2, THEN conjunct2, THEN conjunct2, THEN conjunct2, THEN conjunct2, THEN conjunct1] a
    by (rule mp)
  have u: "handleTelegramUpdate providers_down sample_prims ?u sample_env
      = try_catch (dispatch providers_down sample_prims (Some (num 7))
           (js_lower sample_prims ''/PrIcE BtC eth'') sample_env)
          (\<lambda>error. await_io (sendMessage providers_down (Some (num 7)) apology_generic sample_env))"
    using command_matching [where raw = "''/PrIcE BtC eth''" and w = providers_down
      and p = sample_prims and e = sample_env and update = ?u
      and message = ?m and chat = "Some (JObj [(''id'', num 7)])" and chatId = "Some (num 7)", THEN conjunct2, THEN conjunct2, THEN conjunct2, THEN conjunct2, THEN conjunct2, THEN conjunct2, THEN conjunct2, THEN conjunct2, THEN conjunct2] h
    by (rule mp)
  have 1: "handleTelegramUpdate providers_down sample_prims ?u sample_env
     = try_catch
         (handlePriceCommand providers_down sample_prims (Some (num 7)) (Some (JStr ''btc''))
            sample_env)
         (\<lambda>error. await_io (sendMessage providers_down (Some (num 7)) apology_generic sample_env))"
    unfolding u d b ..
  have e1: "eq_ignore_case ''/HeLP'' ''/start'' \<or> eq_ignore_case ''/HeLP'' ''/help''"
    by code_simp
  have 2: "dispatch providers_down sample_prims (Some (num 7)) (js_lower sample_prims ''/HeLP'')
        sample_env
     = await_io (sendMessage providers_down (Some (num 7)) help_text sample_env)"
    using command_matching [where raw = "''/HeLP''" and w = providers_down
      and p = sample_prims and c = "Some (num 7)" and e = sample_env, THEN conjunct1] e1
    by (rule mp)
  have e2: "is_ascii ''/Prices'' \<and> \<not> eq_ignore_case ''/Prices'' ''/start''
        \<and> \<not> eq_ignore_case ''/Prices'' ''/help''
        \<and> \<not> eq_ignore_case ''/Prices'' ''/top10'' \<and> \<not> eq_ignore_case ''/Prices'' ''/trending''
        \<and> \<not> eq_ignore_case ''/Prices'' ''/pulse'' \<and> \<not> eq_ignore_case ''/Prices'' ''/global''
        \<and> \<not> eq_ignore_case (take 7 ''/Prices'') ''/price ''"
    by code_simp
  have 3: "dispatch providers_down sample_prims (Some (num 7)) (js_lower sample_prims ''/Prices'')
        sample_env [] = (Inr (), [])"
    using command_matching [where raw = "''/Prices''" and w = providers_down
      and p = sample_prims and c = "Some (num 7)" and e = sample_env and sends = "[]", THEN conjunct2, THEN conjunct2, THEN conjunct2, THEN conjunct2, THEN conjunct2, THEN conjunct2, THEN conjunct1] e2
    by (rule mp)
  from 1 2 3 show ?thesis by (intro conjI)
qed

text \<open>
  C6 as stated fails: the text is not trimmed, so /help followed by a space, which the
  specification reads as Help, causes no reply; and the argument is cut at single spaces,
  so after two spaces it is empty where the specification takes the next token.
\<close>

theorem untrimmed_text_not_matched:
  "spec_command sample_prims ''/help '' = Help
   \<and> handleTelegramUpdate providers_down sample_prims
        (text_update (Some (JObj [(''id'', num 7)])) ''/help '') sample_env [] = (Inr (), [])
   \<and> spec_command sample_prims ''/price  btc'' = Price ''btc''
   \<and> handleTelegramUpdate (providers_answer (JObj [(''coins'', JArr [])])) sample_prims
        (text_update (Some (JObj [(''id'', num 7)])) ''/price  btc'') sample_env []
      = (Inr (), [Send (Some (num 7)) (not_found_text []) (Inr telegram_ok)])"
  by code_simp

section \<open>The /price command on a search without hits\<close>

lemma no_hits_cases: "\<not> truthy coins \<or> coins = Some (JArr []) \<Longrightarrow> no_hits coins = Inr True"
  by (auto simp add: no_hits_def bindE_def)

lemma price_miss_handler:
  assumes "fetch_json w (COINGECKO_API @ ''/search?query='' @ encodeURIComponent p q) = Inr searchData"
    and "get_prop (Some searchData) ''coins'' = Inr coins"
    and "\<not> truthy coins \<or> coins = Some (JArr [])"
  shows "handlePriceCommand w p c (Some (JStr q)) e sends =
     (case sendMessage_try w (length sends) c (not_found_text (spec_escape q)) e of
        Inr responseData \<Rightarrow>
          (Inr (), sends @ [Send c (not_found_text (spec_escape q)) (Inr responseData)])
      | Inl err \<Rightarrow>
          await_io (sendMessage w c (price_failed_text (spec_escape q)) e)
            (sends @ [Send c (not_found_text (spec_escape q)) (Inl err)]))"
  using assms no_hits_cases [OF assms(3)]
  by (simp add: handlePriceCommand_def try_catch_def bind_io_def lift_def bindE_def js_String_def
      escape_str replace_reserved_spec await_send split: sum.splits)

text \<open>
  C7, as the code has it. Take an update whose lower-cased text starts with \<^verbatim>\<open>/price\<close> and
  a space, and let the queried term be the lower-cased text between that space and the
  next one (for an ASCII text: the user's first token with its letters lowered). When the
  provider answers the search for that term with a record whose \<^verbatim>\<open>coins\<close> is absent
  (falsy) or an empty array, the first send of the dispatch is the not-found text followed
  by the term escaped once, and nothing else: no price field. When that send is accepted
  the dispatch ends normally with this one send; only when the platform rejects it do the
  handler's and then the dispatcher's \<^verbatim>\<open>catch\<close> send their apologies.
\<close>

theorem price_miss_reply:
  assumes "get_prop (Some update) ''message'' = Inr message"
    and "get_prop message ''text'' = Inr (Some (JStr raw))" and "raw \<noteq> []"
    and "get_prop message ''chat'' = Inr chat" and "get_prop chat ''id'' = Inr chatId"
    and "startsWith (js_lower p raw) ''/price ''"
    and "q = takeWhile (\<lambda>x. x \<noteq> CHR '' '') (drop 7 (js_lower p raw))"
    and "fetch_json w (COINGECKO_API @ ''/search?query='' @ encodeURIComponent p q) = Inr searchData"
    and "get_prop (Some searchData) ''coins'' = Inr coins"
    and "\<not> truthy coins \<or> coins = Some (JArr [])"
  shows "handleTelegramUpdate w p update e [] =
     (case sendMessage_try w 0 chatId (not_found_text (spec_escape q)) e of
        Inr responseData \<Rightarrow>
          (Inr (), [Send chatId (not_found_text (spec_escape q)) (Inr responseData)])
      | Inl err \<Rightarrow>
          try_catch (await_io (sendMessage w chatId (price_failed_text (spec_escape q)) e))
            (\<lambda>error. await_io (sendMessage w chatId apology_generic e))
            [Send chatId (not_found_text (spec_escape q)) (Inl err)])
     \<and> (is_ascii raw \<longrightarrow>
          q = map lower_char (takeWhile (\<lambda>x. x \<noteq> CHR '' '') (drop 7 raw)))"
proof -
  have rd: "read_update p update = Inr (Some (chatId, js_lower p raw))"
    using assms(1-5) by (rule read_update_text)
  have d: "dispatch w p chatId (js_lower p raw) e = handlePriceCommand w p chatId (Some (JStr q)) e"
    using dispatch_price [OF assms(6), of w p chatId e] assms(7) by simp
  have h: "handlePriceCommand w p chatId (Some (JStr q)) e [] =
     (case sendMessage_try w 0 chatId (not_found_text (spec_escape q)) e of
        Inr responseData \<Rightarrow>
          (Inr (), [Send chatId (not_found_text (spec_escape q)) (Inr responseData)])
      | Inl err \<Rightarrow>
          await_io (sendMessage w chatId (price_failed_text (spec_escape q)) e)
            [Send chatId (not_found_text (spec_escape q)) (Inl err)])"
    using price_miss_handler [OF assms(8-10), of chatId e "[]"] by (simp cong: sum.case_cong)
  have 1: "handleTelegramUpdate w p update e [] =
     (case sendMessage_try w 0 chatId (not_found_text (spec_escape q)) e of
        Inr responseData \<Rightarrow>
          (Inr (), [Send chatId (not_found_text (spec_escape q)) (Inr responseData)])
      | Inl err \<Rightarrow>
          try_catch (await_io (sendMessage w chatId (price_failed_text (spec_escape q)) e))
            (\<lambda>error. await_io (sendMessage w chatId apology_generic e))
            [Send chatId (not_found_text (spec_escape q)) (Inl err)])"
    unfolding handle_read [OF rd] d
    by (cases "sendMessage_try w 0 chatId (not_found_text (spec_escape q)) e")
       (simp_all add: try_catch_def h await_send split: sum.splits)
  have 2: "is_ascii raw \<longrightarrow>
          q = map lower_char (takeWhile (\<lambda>x. x \<noteq> CHR '' '') (drop 7 raw))"
  proof
    assume "is_ascii raw"
    then have "js_lower p raw = map lower_char raw" by (rule js_lower_ascii)
    then have "q = takeWhile (\<lambda>x. x \<noteq> CHR '' '') (drop 7 (map lower_char raw))"
      using assms(7) by simp
    then show "q = map lower_char (takeWhile (\<lambda>x. x \<noteq> CHR '' '') (drop 7 raw))"
      by (simp only: drop_map lower_takeWhile)
  qed
  from 1 2 show ?thesis by (rule conjI)
qed

text \<open>
  An instance: an upper-case command and a term with capitals and reserved characters.
\<close>

theorem price_miss_reply_witness:
  "handleTelegramUpdate (providers_answer (JObj [(''coins'', JArr [])])) sample_prims
       (text_update (Some (JObj [(''id'', num 7)])) ''/PRICE Does.Not_Exist'') sample_env []
     = (Inr (), [Send (Some (num 7))
                   (cross_mark @ '' Could not find cryptocurrency: does'' @ bs @ ''.not'' @ bs @ ''_exist'')
                   (Inr telegram_ok)])"
proof -
  let ?w = "providers_answer (JObj [(''coins'', JArr [])])"
  let ?u = "text_update (Some (JObj [(''id'', num 7)])) ''/PRICE Does.Not_Exist''"
  let ?m = "Some (JObj [(''chat'', JObj [(''id'', num 7)]), (''text'', JStr ''/PRICE Does.Not_Exist'')])"
  have 1: "get_prop (Some ?u) ''message'' = Inr ?m" by (simp add: text_update_def)
  have 2: "get_prop ?m ''text'' = Inr (Some (JStr ''/PRICE Does.Not_Exist''))" by simp
  have 3: "''/PRICE Does.Not_Exist'' \<noteq> []" by simp
  have 4: "get_prop ?m ''chat'' = Inr (Some (JObj [(''id'', num 7)]))" by simp
  have 5: "get_prop (Some (JObj [(''id'', num 7)])) ''id'' = Inr (Some (num 7))" by simp
  have 6: "startsWith (js_lower sample_prims ''/PRICE Does.Not_Exist'') ''/price ''" by code_simp
  have 7: "''does.not_exist''
     = takeWhile (\<lambda>x. x \<noteq> CHR '' '') (drop 7 (js_lower sample_prims ''/PRICE Does.Not_Exist''))"
    by code_simp
  have 8: "fetch_json ?w (COINGECKO_API @ ''/search?query='' @ encodeURIComponent sample_prims ''does.not_exist'')
      = Inr (JObj [(''coins'', JArr [])])"
    by (simp add: fetch_json_def providers_answer_def response_ok_def)
  have 9: "get_prop (Some (JObj [(''coins'', JArr [])])) ''coins'' = Inr (Some (JArr []))"
    by simp
  have 10: "\<not> truthy (Some (JArr [])) \<or> Some (JArr []) = Some (JArr [])"
    by simp
  have s: "sendMessage_try ?w 0 (Some (num 7)) (not_found_text (spec_escape ''does.not_exist'')) sample_env
     = Inr telegram_ok"
    by (simp add: sendMessage_try_def providers_answer_def response_ok_def)
  have t: "not_found_text (spec_escape ''does.not_exist'')
     = cross_mark @ '' Could not find cryptocurrency: does'' @ bs @ ''.not'' @ bs @ ''_exist''"
    by (simp add: not_found_text_def spec_escape_def spec_reserved_def)
  from price_miss_reply [OF 1 2 3 4 5 6 7 8 9 10, of sample_env] s t
  show ?thesis by simp
qed

text \<open>
  C7 as stated fails: the reply holds the term as the dispatcher extracted it, not as the
  user supplied it. For /price BTC it names btc, and BTC does not occur in it; for /price
  followed by two spaces and btc the term is empty, and btc does not occur in the reply.
\<close>

theorem price_reply_lowers_term:
  "handleTelegramUpdate (providers_answer (JObj [(''coins'', JArr [])])) sample_prims
       (text_update (Some (JObj [(''id'', num 7)])) ''/price BTC'') sample_env []
     = (Inr (), [Send (Some (num 7)) (not_found_text ''btc'') (Inr telegram_ok)])
   \<and> \<not> contains (not_found_text ''btc'') ''BTC''
   \<and> handleTelegramUpdate (providers_answer (JObj [(''coins'', JArr [])])) sample_prims
       (text_update (Some (JObj [(''id'', num 7)])) ''/price  btc'') sample_env []
     = (Inr (), [Send (Some (num 7)) (not_found_text []) (Inr telegram_ok)])
   \<and> \<not> contains (not_found_text []) ''btc''"
  by code_simp

section \<open>Malformed updates\<close>

text \<open>
  C8, as the code has it. An update other than \<^verbatim>\<open>null\<close> whose \<^verbatim>\<open>message\<close> is absent
  (falsy), or whose message has no text (or an empty one), is dropped: nothing is sent and
  the promise is fulfilled. Every update other than \<^verbatim>\<open>null\<close> has a \<^verbatim>\<open>message\<close> read that
  succeeds. The update \<^verbatim>\<open>null\<close> sends nothing either, but the read of its \<^verbatim>\<open>message\<close>
  throws, and the promise is rejected with a TypeError.
\<close>

theorem update_without_text_dropped:
  "(update \<noteq> JNull \<and> get_prop (Some update) ''message'' = Inr message
      \<and> (\<not> truthy message \<or> (\<exists>text. get_prop message ''text'' = Inr text \<and> \<not> truthy text))
      \<longrightarrow> read_update p update = Inr None
          \<and> handleTelegramUpdate w p update e [] = (Inr (), []))
   \<and> (update \<noteq> JNull \<longrightarrow> (\<exists>message. get_prop (Some update) ''message'' = Inr message))
   \<and> read_update p JNull = Inl TypeError
   \<and> handleTelegramUpdate w p JNull e [] = (Inl TypeError, [])"
proof -
  have 1: "update \<noteq> JNull \<and> get_prop (Some update) ''message'' = Inr message
      \<and> (\<not> truthy message \<or> (\<exists>text. get_prop message ''text'' = Inr text \<and> \<not> truthy text))
      \<longrightarrow> read_update p update = Inr None
          \<and> handleTelegramUpdate w p update e [] = (Inr (), [])"
  proof
    assume a: "update \<noteq> JNull \<and> get_prop (Some update) ''message'' = Inr message
      \<and> (\<not> truthy message \<or> (\<exists>text. get_prop message ''text'' = Inr text \<and> \<not> truthy text))"
    then have "read_update p update = Inr None"
      by (auto simp add: read_update_def bindE_def)
    then show "read_update p update = Inr None
          \<and> handleTelegramUpdate w p update e [] = (Inr (), [])"
      by (simp add: handle_dropped)
  qed
  have 2: "update \<noteq> JNull \<longrightarrow> (\<exists>message. get_prop (Some update) ''message'' = Inr message)"
    by (cases update) simp_all
  have 3: "read_update p JNull = Inl TypeError"
    by (simp add: read_update_def bindE_def)
  then have 4: "handleTelegramUpdate w p JNull e [] = (Inl TypeError, [])"
    by (rule handle_failed)
  from 1 2 3 4 show ?thesis by (intro conjI)
qed

text \<open>
  An instance: a message with a photo and no text.
\<close>

theorem update_without_text_dropped_witness:
  "handleTelegramUpdate platform_rejects sample_prims
     (JObj [(''message'', JObj [(''chat'', JObj [(''id'', num 7)]), (''photo'', JArr [])])])
     sample_env [] = (Inr (), [])"
proof -
  let ?m = "JObj [(''chat'', JObj [(''id'', num 7)]), (''photo'', JArr [])]"
  have 1: "JObj [(''message'', ?m)] \<noteq> JNull
      \<and> get_prop (Some (JObj [(''message'', ?m)])) ''message'' = Inr (Some ?m)
      \<and> (\<not> truthy (Some ?m) \<or> (\<exists>text. get_prop (Some ?m) ''text'' = Inr text \<and> \<not> truthy text))"
    by simp
  have "read_update sample_prims (JObj [(''message'', ?m)]) = Inr None
      \<and> handleTelegramUpdate platform_rejects sample_prims (JObj [(''message'', ?m)]) sample_env []
          = (Inr (), [])"
    using update_without_text_dropped [where update = "JObj [(''message'', ?m)]"
      and message = "Some ?m" and p = sample_prims and w = platform_rejects and e = sample_env,
      THEN conjunct1] 1
    by (rule mp)
  then show ?thesis by (rule conjunct2)
qed

text \<open>
  C8 as stated fails for the chat identifier: a message whose chat has no \<^verbatim>\<open>id\<close> is
  answered, with a send whose chat is \<^verbatim>\<open>undefined\<close>; a message without \<^verbatim>\<open>chat\<close> makes
  the handler's promise reject with a TypeError; and so does the payload \<^verbatim>\<open>null\<close>.
\<close>

theorem update_without_chat_id_not_dropped:
  "handleTelegramUpdate providers_down sample_prims (text_update (Some (JObj [])) ''/help'')
       sample_env [] = (Inr (), [Send None help_text (Inr telegram_ok)])
   \<and> handleTelegramUpdate providers_down sample_prims (text_update None ''/help'')
       sample_env [] = (Inl TypeError, [])
   \<and> handleTelegramUpdate providers_down sample_prims JNull sample_env [] = (Inl TypeError, [])"
  by code_simp

section \<open>Rejected sends\<close>

text \<open>
  C9, as the code has it. \<^verbatim>\<open>sendMessage\<close> makes one call and, when it fails, throws the
  error on to its caller. The webhook's response is 200 OK whatever the work handed to
  \<^verbatim>\<open>waitUntil\<close> comes to. For a command, at least one and at most four sends are attempted;
  when the first one is rejected a further send, an apology, is attempted; and when the
  last one is rejected the promise of the background work is rejected.
\<close>

theorem rejected_send_followed_by_apology:
  "(sendMessage_try w (length sends) c t e = Inl err \<longrightarrow>
      sendMessage w c t e sends = (Inl err, sends @ [Send c t (Inl err)]))
   \<and> (truthy (map_option JStr (TELEGRAM_BOT_TOKEN e)) \<and> req_method request = ''POST''
        \<and> req_pathname request = WEBHOOK_ENDPOINT \<and> req_json request = Some update \<longrightarrow>
        worker_fetch w p request e
          = (HttpResponse ''OK'' 200, Some (handleTelegramUpdate w p update e [])))
   \<and> (read_update p update = Inr (Some (chatId, text)) \<and> recognized text
        \<and> handleTelegramUpdate w p update e [] = (r, out) \<longrightarrow>
        out \<noteq> [] \<and> length out \<le> 4 \<and> (\<not> accepted (hd out) \<longrightarrow> 2 \<le> length out)
        \<and> (\<not> accepted (last out) \<longrightarrow> isl r))"
proof -
  have 1: "sendMessage_try w (length sends) c t e = Inl err \<longrightarrow>
      sendMessage w c t e sends = (Inl err, sends @ [Send c t (Inl err)])"
    by (simp add: sendMessage_eq)
  have 2: "truthy (map_option JStr (TELEGRAM_BOT_TOKEN e)) \<and> req_method request = ''POST''
        \<and> req_pathname request = WEBHOOK_ENDPOINT \<and> req_json request = Some update \<longrightarrow>
        worker_fetch w p request e
          = (HttpResponse ''OK'' 200, Some (handleTelegramUpdate w p update e []))"
    by (simp add: worker_fetch_def)
  have 3: "read_update p update = Inr (Some (chatId, text)) \<and> recognized text
        \<and> handleTelegramUpdate w p update e [] = (r, out) \<longrightarrow>
        out \<noteq> [] \<and> length out \<le> 4 \<and> (\<not> accepted (hd out) \<longrightarrow> 2 \<le> length out)
        \<and> (\<not> accepted (last out) \<longrightarrow> isl r)"
  proof
    assume a: "read_update p update = Inr (Some (chatId, text)) \<and> recognized text
        \<and> handleTelegramUpdate w p update e [] = (r, out)"
    then have rd: "read_update p update = Inr (Some (chatId, text))" and rec: "recognized text"
      and res: "handleTelegramUpdate w p update e [] = (r, out)" by simp_all
    have tc: "try_catch (dispatch w p chatId text e)
        (\<lambda>error. await_io (sendMessage w chatId apology_generic e)) [] = (r, out)"
      using res by (simp add: handle_read [OF rd])
    show "out \<noteq> [] \<and> length out \<le> 4 \<and> (\<not> accepted (hd out) \<longrightarrow> 2 \<le> length out)
        \<and> (\<not> accepted (last out) \<longrightarrow> isl r)"
    proof (cases "text = ''/pulse''")
      case False
      have d: "attempts 2 (dispatch w p chatId text e []) []"
        using rec False by (rule dispatch_attempts)
      from catch_retry [OF d tc] have x: "out \<noteq> []" "\<not> accepted (hd out) \<longrightarrow> 2 \<le> length out"
        by auto
      have "attempts 3 (r, [] @ out) []"
        using handle_attempts [OF rd rec False, where w = w and e = e and sends = "[]"] res by simp
      from attempts_counts(2,6) [OF this] x show ?thesis by simp
    next
      case True
      obtain r1 where "attempts 3 (handleTelegramUpdate w p update e []) ([] @ [Send chatId fetching_text r1])"
        using handle_attempts_pulse [where update = update and c = chatId and w = w and p = p and e = e and sends = "[]"] rd True by auto
      then have at: "attempts 3 (r, out) [Send chatId fetching_text r1]"
        using res by simp
      then obtain new where new: "out = [Send chatId fetching_text r1] @ new"
        by (auto simp add: attempts_def)
      with at have "attempts 3 (r, [Send chatId fetching_text r1] @ new) [Send chatId fetching_text r1]"
        by simp
      from attempts_counts(1,2,6) [OF this] new show ?thesis by (cases new) auto
    qed
  qed
  from 1 2 3 show ?thesis by blast
qed

text \<open>
  An instance: /help on a platform that rejects every send.
\<close>

theorem rejected_send_followed_by_apology_witness:
  "2 \<le> length (snd (handleTelegramUpdate platform_rejects sample_prims
      (text_update (Some (JObj [(''id'', num 7)])) ''/help'') sample_env []))
   \<and> isl (fst (handleTelegramUpdate platform_rejects sample_prims
      (text_update (Some (JObj [(''id'', num 7)])) ''/help'') sample_env []))
   \<and> fst (worker_fetch platform_rejects sample_prims
        \<lparr> req_method = ''POST'', req_pathname = ''/webhook'', req_origin = ''https://bot.example'',
          req_json = Some (text_update (Some (JObj [(''id'', num 7)])) ''/help'') \<rparr> sample_env)
      = HttpResponse ''OK'' 200"
proof -
  let ?u = "text_update (Some (JObj [(''id'', num 7)])) ''/help''"
  let ?res = "handleTelegramUpdate platform_rejects sample_prims ?u sample_env []"
  let ?rq = "\<lparr> req_method = ''POST'', req_pathname = ''/webhook'', req_origin = ''https://bot.example'',
          req_json = Some ?u \<rparr>"
  have rd: "read_update sample_prims ?u = Inr (Some (Some (num 7), ''/help''))"
    by code_simp
  have rec: "recognized ''/help''"
    by code_simp
  have rej: "\<not> accepted (hd (snd ?res))" "\<not> accepted (last (snd ?res))"
    by code_simp+
  have pre: "truthy (map_option JStr (TELEGRAM_BOT_TOKEN sample_env)) \<and> req_method ?rq = ''POST''
        \<and> req_pathname ?rq = WEBHOOK_ENDPOINT \<and> req_json ?rq = Some ?u"
    by (simp add: sample_env_def WEBHOOK_ENDPOINT_def)
  have "?res = (fst ?res, snd ?res)" by simp
  with rejected_send_followed_by_apology
    [of platform_rejects "[]" "Some (num 7)" "''x''" sample_env TypeError ?rq ?u sample_prims
        "Some (num 7)" "''/help''" "fst ?res" "snd ?res"]
    rd rec rej pre
  show ?thesis by simp
qed

text \<open>
  C9 as stated fails: after the rejected help text the dispatcher's \<^verbatim>\<open>catch\<close> attempts
  a second send, its apology.
\<close>

theorem help_rejected_sends_again:
  "map send_text (snd (handleTelegramUpdate platform_rejects sample_prims
      (text_update (Some (JObj [(''id'', num 7)])) ''/help'') sample_env []))
     = [help_text, apology_generic]"
  by code_simp

end
